theory Spec2Isabelle
  imports Main "HOL-Library.AList"
begin

section \<open>Reset schedule configuration (panel/app/routers/core\_health.py)\<close>

text \<open>
  A \<open>datetime\<close> is a count of microseconds, so that \<open>timedelta(minutes=m)\<close> is
  \<open>m * 60000000\<close>. The calendar range of Python's datetime (years 1 to 9999) is not
  part of the model: timestamps are unbounded integers.
\<close>

type_synonym datetime = int

definition minutes :: "int \<Rightarrow> int" where
  "minutes m = m * 60000000"

text \<open>The row type \<open>CoreResetConfig\<close>, with the columns the router reads and writes.\<close>

record core_reset_config =
  core :: string
  enabled :: bool
  interval_minutes :: int
  last_reset :: "datetime option"
  next_reset :: "datetime option"
  updated_at :: "datetime option"

text \<open>The request body \<open>ResetConfigUpdate\<close>: both fields default to \<open>None\<close>.\<close>

record reset_config_update =
  upd_enabled :: "bool option"
  upd_interval_minutes :: "int option"

text \<open>The response body \<open>ResetConfigResponse\<close>.\<close>

record reset_config_response =
  resp_core :: string
  resp_enabled :: bool
  resp_interval_minutes :: int
  resp_last_reset :: "datetime option"
  resp_next_reset :: "datetime option"

datatype http_error = HTTPException nat string

definition CORES :: "string list" where
  "CORES = [''backhaul'', ''rathole'', ''chisel'', ''frp'']"

text \<open>
  The table of reset configurations, one row per core, and a database session over it:
  the committed rows and the rows the session has loaded, added or changed.
\<close>

type_synonym config_table = "string \<rightharpoonup> core_reset_config"

record db_session =
  committed :: config_table
  pending :: config_table

text \<open>
  Modelled from the spec: the session provider \<open>get_db\<close> of \<open>app.database\<close> is not
  among the sources. The persisted store is an external collaborator that keeps what
  was committed; a session starts with nothing pending.
\<close>

definition open_session :: "config_table \<Rightarrow> db_session" where
  "open_session tbl = \<lparr>committed = tbl, pending = Map.empty\<rparr>"

text \<open>
  Modelled from the spec: the end of a request in \<open>get_db\<close> of \<open>app.database\<close>,
  which is not among the sources. What the handler did not commit is dropped with the
  session; the stored configuration is the committed table.
\<close>

definition close_session :: "db_session \<Rightarrow> config_table" where
  "close_session s = committed s"

text \<open>\<open>select(CoreResetConfig).where(core == c)\<close> followed by \<open>scalar_one_or_none()\<close>.\<close>

definition select_config :: "db_session \<Rightarrow> string \<Rightarrow> core_reset_config option" where
  "select_config s c = (case pending s c of Some cfg \<Rightarrow> Some cfg | None \<Rightarrow> committed s c)"

text \<open>
  An attribute assignment on the row selected for core \<open>c\<close>, or \<open>db.add\<close> of a new
  row for it: the session holds the changed row until the commit.
\<close>

definition session_put :: "string \<Rightarrow> core_reset_config \<Rightarrow> db_session \<Rightarrow> db_session" where
  "session_put c cfg s = s\<lparr>pending := (pending s)(c \<mapsto> cfg)\<rparr>"

text \<open>\<open>await db.commit()\<close>.\<close>

definition db_commit :: "db_session \<Rightarrow> db_session" where
  "db_commit s = \<lparr>committed = committed s ++ pending s, pending = Map.empty\<rparr>"

definition new_config :: "string \<Rightarrow> core_reset_config" where
  "new_config c = \<lparr>core = c, enabled = False, interval_minutes = 10,
     last_reset = None, next_reset = None, updated_at = None\<rparr>"

definition response_of :: "core_reset_config \<Rightarrow> reset_config_response" where
  "response_of cfg = \<lparr>resp_core = core cfg, resp_enabled = enabled cfg,
     resp_interval_minutes = interval_minutes cfg,
     resp_last_reset = last_reset cfg, resp_next_reset = next_reset cfg\<rparr>"

text \<open>
  Lines 180 to 186 of \<open>update_reset_config\<close>: the schedule is recomputed from the row.
  \<open>config.interval_minutes\<close> is tested for truth, which for an integer is \<open>\<noteq> 0\<close>.
\<close>

definition compute_next_reset :: "datetime \<Rightarrow> core_reset_config \<Rightarrow> datetime option" where
  "compute_next_reset now cfg =
     (if enabled cfg \<and> interval_minutes cfg \<noteq> 0 then
        (case last_reset cfg of
           Some t \<Rightarrow> Some (t + minutes (interval_minutes cfg))
         | None \<Rightarrow> Some (now + minutes (interval_minutes cfg)))
      else None)"

text \<open>
  \<open>update_reset_config(core, config_update, db)\<close>. The two readings of the clock
  (\<open>datetime.utcnow()\<close> for \<open>next_reset\<close> and for \<open>updated_at\<close>) are the arguments
  \<open>now1\<close> and \<open>now2\<close>. The function runs inside a session; an \<open>HTTPException\<close>
  leaves the session as it is at the raise.
\<close>

definition update_reset_config ::
  "string \<Rightarrow> reset_config_update \<Rightarrow> datetime \<Rightarrow> datetime \<Rightarrow> db_session
     \<Rightarrow> (http_error + reset_config_response) \<times> db_session" where
  "update_reset_config c upd now1 now2 s =
     (if c \<notin> set CORES then (Inl (HTTPException 400 (''Invalid core: '' @ c)), s)
      else
        let (config, s1) = (case select_config s c of
                              Some cfg \<Rightarrow> (cfg, s)
                            | None \<Rightarrow> (new_config c, session_put c (new_config c) s));
            (config, s2) = (case upd_enabled upd of
                              Some e \<Rightarrow> (config\<lparr>enabled := e\<rparr>, session_put c (config\<lparr>enabled := e\<rparr>) s1)
                            | None \<Rightarrow> (config, s1))
        in
          if (case upd_interval_minutes upd of Some m \<Rightarrow> m < 1 | None \<Rightarrow> False)
          then (Inl (HTTPException 400 ''Interval must be at least 1 minute''), s2)
          else
            let config = (case upd_interval_minutes upd of
                            Some m \<Rightarrow> config\<lparr>interval_minutes := m\<rparr>
                          | None \<Rightarrow> config);
                config = config\<lparr>next_reset := compute_next_reset now1 config\<rparr>;
                config = config\<lparr>updated_at := Some now2\<rparr>;
                s3 = db_commit (session_put c config s2)
            in (Inr (response_of config), s3))"

text \<open>The endpoint \<open>PUT /reset-config/{core}\<close>: one request, one session.\<close>

definition put_reset_config ::
  "string \<Rightarrow> reset_config_update \<Rightarrow> datetime \<Rightarrow> datetime \<Rightarrow> config_table
     \<Rightarrow> (http_error + reset_config_response) \<times> config_table" where
  "put_reset_config c upd now1 now2 tbl =
     (case update_reset_config c upd now1 now2 (open_session tbl) of
        (r, s) \<Rightarrow> (r, close_session s))"

text \<open>
  Lines 210 to 217 of \<open>manual_reset_core\<close>: what a finished reset writes to the row.
  \<open>next_reset\<close> is touched only when the schedule is enabled.
\<close>

definition after_reset_config :: "datetime \<Rightarrow> core_reset_config \<Rightarrow> core_reset_config" where
  "after_reset_config now cfg =
     (let cfg1 = cfg\<lparr>last_reset := Some now\<rparr>
      in if enabled cfg1 \<and> interval_minutes cfg1 \<noteq> 0
         then cfg1\<lparr>next_reset := Some (now + minutes (interval_minutes cfg1))\<rparr>
         else cfg1)"

text \<open>
  The row an accepted update leaves behind, in closed form (used to state and prove the
  properties below; \<open>put_reset_config_accept\<close> relates it to the endpoint).
\<close>

definition updated_config ::
  "string \<Rightarrow> reset_config_update \<Rightarrow> datetime \<Rightarrow> datetime \<Rightarrow> config_table \<Rightarrow> core_reset_config" where
  "updated_config c upd now1 now2 tbl =
    (let c0 = (case tbl c of Some cfg \<Rightarrow> cfg | None \<Rightarrow> new_config c);
         c1 = (case upd_enabled upd of Some e \<Rightarrow> c0\<lparr>enabled := e\<rparr> | None \<Rightarrow> c0);
         c2 = (case upd_interval_minutes upd of Some m \<Rightarrow> c1\<lparr>interval_minutes := m\<rparr> | None \<Rightarrow> c1)
     in c2\<lparr>next_reset := compute_next_reset now1 c2, updated_at := Some now2\<rparr>)"

section \<open>The Rathole server manager (panel/app/rathole\_server.py)\<close>

subsection \<open>Strings\<close>

text \<open>\<open>str(n)\<close> for a Python integer: decimal digits, with a minus sign when negative.\<close>

definition digit_char :: "nat \<Rightarrow> char" where
  "digit_char d =
     (if d = 0 then CHR ''0'' else if d = 1 then CHR ''1'' else if d = 2 then CHR ''2''
      else if d = 3 then CHR ''3'' else if d = 4 then CHR ''4'' else if d = 5 then CHR ''5''
      else if d = 6 then CHR ''6'' else if d = 7 then CHR ''7'' else if d = 8 then CHR ''8''
      else CHR ''9'')"

fun str_nat :: "nat \<Rightarrow> string" where
  "str_nat n = (if n < 10 then [digit_char n] else str_nat (n div 10) @ [digit_char (n mod 10)])"

declare str_nat.simps [simp del]

definition str_int :: "int \<Rightarrow> string" where
  "str_int i = (if i < 0 then CHR ''-'' # str_nat (nat (- i)) else str_nat (nat i))"

text \<open>\<open>s.split(c)\<close> for a one-character separator: never empty, one more field than separators.\<close>

fun split_on :: "char \<Rightarrow> string \<Rightarrow> string list" where
  "split_on c [] = [[]]"
| "split_on c (x # xs) =
     (if x = c then [] # split_on c xs
      else (case split_on c xs of y # ys \<Rightarrow> (x # y) # ys | [] \<Rightarrow> [[x]]))"

definition nl :: string where
  "nl = [CHR 0x0A]"

definition dq :: string where
  "dq = [CHR 0x22]"

text \<open>\<open>error_output[-500:] if len(error_output) > 500 else error_output\<close>.\<close>

definition tail500 :: "string \<Rightarrow> string" where
  "tail500 out = (if length out > 500 then drop (length out - 500) out else out)"

subsection \<open>Exceptions, handles and the operating system\<close>

datatype exn =
    ValueError string
  | TypeError
  | AttributeError
  | FileNotFoundError
  | TimeoutExpired
  | OSError string
  | RuntimeError string
  | ClientError string

text \<open>The values found in a tunnel's \<open>spec\<close> dictionary: \<open>None\<close>, a string or an integer.\<close>

datatype pyval = PNone | PStr string | PInt int

text \<open>
  The values of the dictionary \<open>active_servers\<close>: a \<open>subprocess.Popen\<close> object (by its
  pid) or, under the keys \<open><tunnel_id>_log\<close>, the open log file object (by a number
  given at \<open>open\<close>).
\<close>

datatype handle = Proc nat | LogFile nat

text \<open>The dictionary stored in \<open>server_configs\<close> for a tunnel (lines 60 to 66).\<close>

record server_config =
  cfg_remote_addr :: string
  cfg_token :: string
  cfg_proxy_port :: int
  cfg_bind_addr :: string
  cfg_config_path :: string

text \<open>
  What a child process does, which the manager cannot know when it launches it: its return
  code if it has exited when it is polled after the one-second pause (\<open>None\<close>: still
  running), what it has written to its standard output and error by then, and its return
  code if it exits within five seconds of SIGTERM (\<open>None\<close>: it does not).
\<close>

record proc_fate =
  early_exit :: "int option"
  child_output :: string
  term_exit :: "int option"

text \<open>The outcome of the loopback connect of lines 129 to 139.\<close>

datatype probe_result = Listening | NotListening | ProbeError

datatype level = INFO | WARNING | ERROR

text \<open>The records given to the logger, one constructor per call site.\<close>

datatype log_msg =
    Already_exists string
  | Start_failed string
  | Port_not_listening string nat
  | Could_not_verify_port
  | Started string string int
  | Failed_to_start string exn
  | Error_stopping string exn
  | Stopped string
  | Failed_to_delete string exn
  | Error_restarting_server string exn
  | Error_restarting_client string string exn

text \<open>What the manager does that others can see, in order: log records and system calls.\<close>

datatype event =
    Log level log_msg
  | Spawned nat string string
  | Sigterm nat
  | Sigkill nat
  | Closed nat
  | Unlinked string
  | Applied string string "(string \<times> pyval) list"

text \<open>
  What the environment will answer: whether each of the two binaries exists, the fate of
  each child (by pid), which \<open>close\<close> (by file object), \<open>unlink\<close> and read (by path) fail,
  the read with the text of its error, and what the port probe finds for a bind address.
\<close>

record os_env =
  primary_binary :: bool
  system_binary :: bool
  fate :: "nat \<Rightarrow> proc_fate"
  close_fails :: "nat \<Rightarrow> bool"
  unlink_fails :: "string \<Rightarrow> bool"
  read_fails :: "string \<Rightarrow> string option"
  probe :: "string \<Rightarrow> probe_result"

text \<open>
  The state: the two dictionaries of the manager (in insertion order, as Python keeps
  them), the files, the process table (\<open>returncode\<close>: \<open>None\<close> while a process runs), the
  counters that number processes and file objects, the trace of events, and the
  environment.
\<close>

record state =
  active_servers :: "(string \<times> handle) list"
  server_configs :: "(string \<times> server_config) list"
  files :: "string \<rightharpoonup> string"
  returncode :: "nat \<Rightarrow> int option"
  next_pid :: nat
  next_fd :: nat
  events :: "event list"
  env :: os_env

definition emit :: "event \<Rightarrow> state \<Rightarrow> state" where
  "emit e s = s\<lparr>events := events s @ [e]\<rparr>"

definition log :: "level \<Rightarrow> log_msg \<Rightarrow> state \<Rightarrow> state" where
  "log l m s = emit (Log l m) s"

text \<open>\<open>del d[k]\<close> and \<open>d[k] = v\<close> on the dictionaries are \<open>AList.delete\<close> and \<open>AList.update\<close>.\<close>

definition del_active :: "string \<Rightarrow> state \<Rightarrow> state" where
  "del_active k s = s\<lparr>active_servers := AList.delete k (active_servers s)\<rparr>"

definition del_config :: "string \<Rightarrow> state \<Rightarrow> state" where
  "del_config k s = s\<lparr>server_configs := AList.delete k (server_configs s)\<rparr>"

subsection \<open>Methods of the stored objects\<close>

text \<open>\<open>proc.poll()\<close>: a file object has no such method.\<close>

fun poll :: "handle \<Rightarrow> state \<Rightarrow> exn + int option" where
  "poll (Proc pid) s = Inr (returncode s pid)"
| "poll (LogFile fd) s = Inl AttributeError"

text \<open>\<open>proc.terminate()\<close>: SIGTERM to a process that has not exited.\<close>

fun terminate :: "handle \<Rightarrow> state \<Rightarrow> exn option \<times> state" where
  "terminate (Proc pid) s =
     (if returncode s pid = None then (None, emit (Sigterm pid) s) else (None, s))"
| "terminate (LogFile fd) s = (Some AttributeError, s)"

text \<open>
  \<open>proc.wait(timeout=5)\<close>: returns when the process has exited, which a running process
  that was sent SIGTERM does within the five seconds if its fate says so.
\<close>

fun wait_timeout :: "handle \<Rightarrow> state \<Rightarrow> exn option \<times> state" where
  "wait_timeout (Proc pid) s =
     (case returncode s pid of
        Some rc \<Rightarrow> (None, s)
      | None \<Rightarrow>
          (case term_exit (fate (env s) pid) of
             Some rc \<Rightarrow> if Sigterm pid \<in> set (events s)
                        then (None, s\<lparr>returncode := (returncode s)(pid := Some rc)\<rparr>)
                        else (Some TimeoutExpired, s)
           | None \<Rightarrow> (Some TimeoutExpired, s)))"
| "wait_timeout (LogFile fd) s = (Some AttributeError, s)"

text \<open>
  \<open>proc.kill(); proc.wait()\<close>: SIGKILL cannot be ignored, so the wait returns, with
  return code \<open>-9\<close> for a process that was running.
\<close>

fun kill_wait :: "handle \<Rightarrow> state \<Rightarrow> exn option \<times> state" where
  "kill_wait (Proc pid) s =
     (if returncode s pid = None
      then (None, (emit (Sigkill pid) s)\<lparr>returncode := (returncode s)(pid := Some (- 9))\<rparr>)
      else (None, s))"
| "kill_wait (LogFile fd) s = (Some AttributeError, s)"

text \<open>\<open>f.close()\<close>: a \<open>Popen\<close> object has no such method.\<close>

fun close :: "handle \<Rightarrow> state \<Rightarrow> exn option \<times> state" where
  "close (LogFile fd) s =
     (if close_fails (env s) fd then (Some (OSError ''close''), s) else (None, emit (Closed fd) s))"
| "close (Proc pid) s = (Some AttributeError, s)"

subsection \<open>stop\_server\<close>

text \<open>
  Lines 162 to 170, and again lines 117 to 123: the entry of the tunnel is deleted, and the
  entry under \<open><tunnel_id>_log\<close>, if there is one, is closed (\<open>except: pass\<close>) and deleted.
\<close>

definition forget_entries :: "string \<Rightarrow> state \<Rightarrow> state" where
  "forget_entries tunnel_id s =
     (let s1 = del_active tunnel_id s;
          log_key = tunnel_id @ ''_log''
      in case map_of (active_servers s1) log_key of
           None \<Rightarrow> s1
         | Some h \<Rightarrow> del_active log_key (snd (close h s1)))"

text \<open>Lines 152 to 172: the \<open>try\<close> statement of \<open>stop_server\<close> and the record that follows it.\<close>

definition stop_process :: "string \<Rightarrow> handle \<Rightarrow> state \<Rightarrow> exn option \<times> state" where
  "stop_process tunnel_id proc s =
     (let (r, s1) = (case terminate proc s of
                       (Some e, s') \<Rightarrow> (Some e, s')
                     | (None, s') \<Rightarrow> wait_timeout proc s');
          (r2, s2) = (case r of
                        None \<Rightarrow> (None, s1)
                      | Some e \<Rightarrow>
                          if e = TimeoutExpired then kill_wait proc s1
                          else (None, log WARNING (Error_stopping tunnel_id e) s1));
          s3 = forget_entries tunnel_id s2
      in case r2 of
           Some e \<Rightarrow> (Some e, s3)
         | None \<Rightarrow> (None, log INFO (Stopped tunnel_id) s3))"

text \<open>Lines 175 to 182: the rendered configuration file is unlinked and its entry deleted.\<close>

definition remove_config :: "string \<Rightarrow> state \<Rightarrow> state" where
  "remove_config tunnel_id s =
     (case map_of (server_configs s) tunnel_id of
        None \<Rightarrow> s
      | Some cfg \<Rightarrow>
          (let config_path = cfg_config_path cfg;
               s1 = (if files s config_path \<noteq> None then
                       (if unlink_fails (env s) config_path
                        then log WARNING (Failed_to_delete config_path (OSError ''unlink'')) s
                        else emit (Unlinked config_path) (s\<lparr>files := (files s)(config_path := None)\<rparr>))
                     else s)
           in del_config tunnel_id s1))"

text \<open>\<open>stop_server(tunnel_id)\<close>; the result is the exception that leaves the call, if any.\<close>

definition stop_server :: "string \<Rightarrow> state \<Rightarrow> exn option \<times> state" where
  "stop_server tunnel_id s =
     (case (case map_of (active_servers s) tunnel_id of
              None \<Rightarrow> (None, s)
            | Some proc \<Rightarrow> stop_process tunnel_id proc s) of
        (Some e, s1) \<Rightarrow> (Some e, s1)
      | (None, s1) \<Rightarrow> (None, remove_config tunnel_id s1))"

subsection \<open>start\_server\<close>

definition config_dir :: string where
  "config_dir = ''/app/data/rathole''"

text \<open>\<open>self.config_dir / name\<close> for a file name.\<close>

definition in_config_dir :: "string \<Rightarrow> string" where
  "in_config_dir name = config_dir @ ''/'' @ name"

text \<open>Lines 36 to 39.\<close>

definition bind_addr_of :: "string \<Rightarrow> exn + string" where
  "bind_addr_of remote_addr =
     (if CHR '':'' \<in> set remote_addr then
        (case split_on CHR '':'' remote_addr of
           _ # port # _ \<Rightarrow> Inr (''0.0.0.0:'' @ port)
         | _ \<Rightarrow> Inl (ValueError ''list index out of range''))
      else Inl (ValueError (''Invalid remote_addr format: '' @ remote_addr)))"

text \<open>Lines 47 to 53: the TOML text.\<close>

definition render_config :: "string \<Rightarrow> string \<Rightarrow> string \<Rightarrow> int \<Rightarrow> string" where
  "render_config bind_addr token tunnel_id proxy_port =
     ''[server]'' @ nl @
     ''bind_addr = '' @ dq @ bind_addr @ dq @ nl @
     ''default_token = '' @ dq @ token @ dq @ nl @
     nl @
     ''[server.services.'' @ tunnel_id @ '']'' @ nl @
     ''bind_addr = '' @ dq @ ''0.0.0.0:'' @ str_int proxy_port @ dq @ nl"

text \<open>Lines 72 to 75 and line 87: what is written to the log before the launch.\<close>

definition log_preamble :: "string \<Rightarrow> string \<Rightarrow> int \<Rightarrow> string \<Rightarrow> string \<Rightarrow> string" where
  "log_preamble tunnel_id bind_addr proxy_port config_path config =
     ''Starting rathole server for tunnel '' @ tunnel_id @ nl @
     ''Config: bind_addr='' @ bind_addr @ '', proxy_port='' @ str_int proxy_port @ nl @
     ''Config file: '' @ config_path @ nl @
     ''Config content:'' @ nl @ config @ nl"

definition log_preamble_system :: "string \<Rightarrow> string" where
  "log_preamble_system tunnel_id =
     ''Starting rathole server (system binary) for tunnel '' @ tunnel_id @ nl"

text \<open>\<open>open(path, 'w')\<close> followed by the writes: the file holds exactly what was written.\<close>

definition write_file :: "string \<Rightarrow> string \<Rightarrow> state \<Rightarrow> state" where
  "write_file path text s = s\<lparr>files := (files s)(path \<mapsto> text)\<rparr>"

text \<open>\<open>subprocess.Popen([binary, "-s", config_path], ...)\<close> for a binary that exists.\<close>

definition popen :: "string \<Rightarrow> string \<Rightarrow> state \<Rightarrow> nat \<times> state" where
  "popen binary config_path s =
     (let pid = next_pid s
      in (pid, emit (Spawned pid binary config_path)
                 (s\<lparr>next_pid := Suc pid, returncode := (returncode s)(pid := None)\<rparr>)))"

text \<open>\<open>open(log_file, 'w', buffering=1)\<close> with its writes: a new file object.\<close>

definition open_log :: "string \<Rightarrow> string \<Rightarrow> state \<Rightarrow> nat \<times> state" where
  "open_log log_file text s =
     (let fd = next_fd s in (fd, write_file log_file text (s\<lparr>next_fd := Suc fd\<rparr>)))"

text \<open>
  Lines 69 to 95: the log is opened and the binary launched, with the fallback to the
  binary on the path when the first is not found. The result is the log file object and
  the process.
\<close>

definition launch ::
  "string \<Rightarrow> string \<Rightarrow> int \<Rightarrow> string \<Rightarrow> string \<Rightarrow> string \<Rightarrow> state
     \<Rightarrow> (exn + nat \<times> nat) \<times> state" where
  "launch tunnel_id bind_addr proxy_port config_path config log_file s =
     (let (log_f, s1) = open_log log_file
                          (log_preamble tunnel_id bind_addr proxy_port config_path config) s
      in if primary_binary (env s1) then
           (let (pid, s2) = popen ''/usr/local/bin/rathole'' config_path s1
            in (Inr (log_f, pid), s2))
         else
           (let (log_f2, s2) = open_log log_file (log_preamble_system tunnel_id) s1
            in if system_binary (env s2) then
                 (let (pid, s3) = popen ''rathole'' config_path s2
                  in (Inr (log_f2, pid), s3))
               else (Inl FileNotFoundError, s2)))"

text \<open>
  \<open>time.sleep(1.0)\<close> after the launch of \<open>pid\<close>: the child has run for a second. It has
  written its output after the preamble and has exited or not, as its fate says.
\<close>

definition sleep_after_launch :: "nat \<Rightarrow> string \<Rightarrow> state \<Rightarrow> state" where
  "sleep_after_launch pid log_file s =
     s\<lparr>returncode := (returncode s)(pid := early_exit (fate (env s) pid)),
       files := (case files s log_file of
                   None \<Rightarrow> files s
                 | Some text \<Rightarrow> (files s)(log_file \<mapsto> text @ child_output (fate (env s) pid)))\<rparr>"

text \<open>Lines 105 to 115: the message of the error, from the exit code and the log.\<close>

definition start_error_msg :: "int \<Rightarrow> string \<Rightarrow> state \<Rightarrow> string" where
  "start_error_msg rc log_file s =
     (case (case files s log_file of
              None \<Rightarrow> Inr ''Log file not found''
            | Some text \<Rightarrow> (case read_fails (env s) log_file of
                              Some e \<Rightarrow> Inl e
                            | None \<Rightarrow> Inr text)) of
        Inr error_output \<Rightarrow>
          ''rathole server failed to start (exit code: '' @ str_int rc @ ''): ''
            @ tail500 error_output
      | Inl e \<Rightarrow>
          ''rathole server failed to start (exit code: '' @ str_int rc
            @ ''), could not read log: '' @ e)"

text \<open>Lines 116 to 125: the \<open>finally\<close> of the failure path.\<close>

definition start_rollback :: "string \<Rightarrow> state \<Rightarrow> state" where
  "start_rollback tunnel_id s =
     (let s1 = forget_entries tunnel_id s
      in if map_of (server_configs s1) tunnel_id \<noteq> None then del_config tunnel_id s1 else s1)"

text \<open>Lines 129 to 139: the probe of the port; every outcome is at most a warning.\<close>

definition verify_port :: "string \<Rightarrow> nat \<Rightarrow> state \<Rightarrow> state" where
  "verify_port bind_addr pid s =
     (case probe (env s) bind_addr of
        Listening \<Rightarrow> s
      | NotListening \<Rightarrow> log WARNING (Port_not_listening bind_addr pid) s
      | ProbeError \<Rightarrow> log WARNING Could_not_verify_port s)"

text \<open>Lines 41 to 44: an existing entry is stopped first.\<close>

definition stop_existing :: "string \<Rightarrow> state \<Rightarrow> exn option \<times> state" where
  "stop_existing tunnel_id s =
     (if map_of (active_servers s) tunnel_id \<noteq> None
      then stop_server tunnel_id (log WARNING (Already_exists tunnel_id) s)
      else (None, s))"

definition config_path_of :: "string \<Rightarrow> string" where
  "config_path_of tunnel_id = in_config_dir (tunnel_id @ ''.toml'')"

definition log_file_of :: "string \<Rightarrow> string" where
  "log_file_of tunnel_id = in_config_dir (''rathole_'' @ tunnel_id @ ''.log'')"

text \<open>Lines 46 to 66: the configuration file is written and its entry stored.\<close>

definition store_config :: "string \<Rightarrow> string \<Rightarrow> string \<Rightarrow> int \<Rightarrow> string \<Rightarrow> state \<Rightarrow> state" where
  "store_config tunnel_id remote_addr token proxy_port bind_addr s =
     (let config = render_config bind_addr token tunnel_id proxy_port;
          config_path = config_path_of tunnel_id;
          s1 = write_file config_path config s
      in s1\<lparr>server_configs :=
              AList.update tunnel_id
                \<lparr>cfg_remote_addr = remote_addr, cfg_token = token,
                 cfg_proxy_port = proxy_port, cfg_bind_addr = bind_addr,
                 cfg_config_path = config_path\<rparr>
                (server_configs s1)\<rparr>)"

text \<open>Lines 97 to 99: the log file object and the process are stored, in this order.\<close>

definition register :: "string \<Rightarrow> nat \<Rightarrow> nat \<Rightarrow> state \<Rightarrow> state" where
  "register tunnel_id log_f pid s =
     s\<lparr>active_servers :=
         AList.update tunnel_id (Proc pid)
           (AList.update (tunnel_id @ ''_log'') (LogFile log_f) (active_servers s))\<rparr>"

text \<open>
  Lines 101 to 142: after the pause the process is polled. If it has exited, the error is
  built, logged and raised after the rollback; otherwise the port is probed and the start
  has succeeded.
\<close>

definition check_started ::
  "string \<Rightarrow> string \<Rightarrow> int \<Rightarrow> nat \<Rightarrow> state \<Rightarrow> (exn + bool) \<times> state" where
  "check_started tunnel_id bind_addr proxy_port pid s =
     (let s1 = sleep_after_launch pid (log_file_of tunnel_id) s
      in case returncode s1 pid of
           Some rc \<Rightarrow>
             (let error_msg = start_error_msg rc (log_file_of tunnel_id) s1;
                  s2 = log ERROR (Start_failed error_msg) s1
              in (Inl (RuntimeError error_msg), start_rollback tunnel_id s2))
         | None \<Rightarrow>
             (let s2 = verify_port bind_addr pid s1
              in (Inr True, log INFO (Started tunnel_id bind_addr proxy_port) s2)))"

text \<open>Lines 34 to 142: the body of the outer \<open>try\<close>.\<close>

definition start_server_body ::
  "string \<Rightarrow> string \<Rightarrow> string \<Rightarrow> int \<Rightarrow> state \<Rightarrow> (exn + bool) \<times> state" where
  "start_server_body tunnel_id remote_addr token proxy_port s =
     (case bind_addr_of remote_addr of
        Inl e \<Rightarrow> (Inl e, s)
      | Inr bind_addr \<Rightarrow>
          (case stop_existing tunnel_id s of
             (Some e, s1) \<Rightarrow> (Inl e, s1)
           | (None, s1) \<Rightarrow>
               (let s2 = store_config tunnel_id remote_addr token proxy_port bind_addr s1
                in case launch tunnel_id bind_addr proxy_port (config_path_of tunnel_id)
                          (render_config bind_addr token tunnel_id proxy_port)
                          (log_file_of tunnel_id) s2 of
                     (Inl e, s3) \<Rightarrow> (Inl e, s3)
                   | (Inr (log_f, pid), s3) \<Rightarrow>
                       check_started tunnel_id bind_addr proxy_port pid
                         (register tunnel_id log_f pid s3))))"

text \<open>
  \<open>start_server(tunnel_id, remote_addr, token, proxy_port)\<close>: the outer \<open>except\<close> logs the
  exception and raises it again.
\<close>

definition start_server ::
  "string \<Rightarrow> string \<Rightarrow> string \<Rightarrow> int \<Rightarrow> state \<Rightarrow> (exn + bool) \<times> state" where
  "start_server tunnel_id remote_addr token proxy_port s =
     (case start_server_body tunnel_id remote_addr token proxy_port s of
        (Inl e, s1) \<Rightarrow> (Inl e, log ERROR (Failed_to_start tunnel_id e) s1)
      | (Inr b, s1) \<Rightarrow> (Inr b, s1))"

subsection \<open>is\_running, get\_active\_servers, cleanup\_all\<close>

definition is_running :: "string \<Rightarrow> state \<Rightarrow> exn + bool" where
  "is_running tunnel_id s =
     (case map_of (active_servers s) tunnel_id of
        None \<Rightarrow> Inr False
      | Some proc \<Rightarrow> (case poll proc s of Inl e \<Rightarrow> Inl e | Inr rc \<Rightarrow> Inr (rc = None)))"

text \<open>
  The loop of \<open>get_active_servers\<close> over the snapshot \<open>list(self.active_servers.items())\<close>.
  An exception leaves the loop with the deletions made so far.
\<close>

fun get_active_servers_loop ::
  "(string \<times> handle) list \<Rightarrow> string list \<Rightarrow> state \<Rightarrow> (exn + string list) \<times> state" where
  "get_active_servers_loop [] active s = (Inr active, s)"
| "get_active_servers_loop ((tunnel_id, proc) # rest) active s =
     (case poll proc s of
        Inl e \<Rightarrow> (Inl e, s)
      | Inr None \<Rightarrow> get_active_servers_loop rest (active @ [tunnel_id]) s
      | Inr (Some rc) \<Rightarrow>
          (let s1 = del_active tunnel_id s;
               s2 = (if map_of (server_configs s1) tunnel_id \<noteq> None
                     then del_config tunnel_id s1 else s1)
           in get_active_servers_loop rest active s2))"

definition get_active_servers :: "state \<Rightarrow> (exn + string list) \<times> state" where
  "get_active_servers s = get_active_servers_loop (active_servers s) [] s"



text \<open>The manager after \<open>__init__\<close>, in a given environment.\<close>

definition init_state :: "os_env \<Rightarrow> state" where
  "init_state e =
     \<lparr>active_servers = [], server_configs = [], files = Map.empty,
      returncode = (\<lambda>_. None), next_pid = 0, next_fd = 0, events = [], env = e\<rparr>"

text \<open>Something outside the manager ends the process \<open>pid\<close> with return code \<open>rc\<close>.\<close>

definition external_exit :: "nat \<Rightarrow> int \<Rightarrow> state \<Rightarrow> state" where
  "external_exit pid rc s = s\<lparr>returncode := (returncode s)(pid := Some rc)\<rparr>"

section \<open>The reset of the rathole core (\_reset\_core in core\_health.py)\<close>

text \<open>
  The orchestrator is modelled for \<open>core = "rathole"\<close>, the core whose manager is in the
  sources. A \<open>Tunnel\<close> row has an id, a node id (\<open>None\<close> or a string) and a \<open>spec\<close>
  (\<open>None\<close> or a dictionary). The pauses (\<open>asyncio.sleep\<close>) change nothing in the state.
\<close>

record tunnel =
  tunnel_id :: string
  node_id :: "string option"
  spec :: "(string \<rightharpoonup> pyval) option"





















section \<open>Closed forms and examples\<close>

subsection \<open>Closed forms used in the proofs\<close>

text \<open>
  The binary and the log preamble of the launch that succeeds, the warnings of the port
  probe, and the states of \<open>start_server\<close> before the launch, after the launch and the
  registration, and after the pause.
\<close>

definition launch_binary :: "state \<Rightarrow> string" where
  "launch_binary s = (if primary_binary (env s) then ''/usr/local/bin/rathole'' else ''rathole'')"

definition launch_preamble :: "string \<Rightarrow> string \<Rightarrow> int \<Rightarrow> string \<Rightarrow> string \<Rightarrow> state \<Rightarrow> string" where
  "launch_preamble t ba pp cp config s =
     (if primary_binary (env s) then log_preamble t ba pp cp config else log_preamble_system t)"

definition probe_events :: "string \<Rightarrow> nat \<Rightarrow> state \<Rightarrow> event list" where
  "probe_events ba pid s =
     (case probe (env s) ba of
        Listening \<Rightarrow> []
      | NotListening \<Rightarrow> [Log WARNING (Port_not_listening ba pid)]
      | ProbeError \<Rightarrow> [Log WARNING Could_not_verify_port])"

definition pre_launch :: "string \<Rightarrow> string \<Rightarrow> string \<Rightarrow> int \<Rightarrow> string \<Rightarrow> state \<Rightarrow> state" where
  "pre_launch t ra tok pp ba s = store_config t ra tok pp ba (snd (stop_existing t s))"

definition launched :: "string \<Rightarrow> string \<Rightarrow> string \<Rightarrow> int \<Rightarrow> string \<Rightarrow> state \<Rightarrow> state" where
  "launched t ra tok pp ba s =
     register t (if primary_binary (env s) then next_fd s else Suc (next_fd s)) (next_pid s)
       (snd (launch t ba pp (config_path_of t) (render_config ba tok t pp) (log_file_of t)
               (pre_launch t ra tok pp ba s)))"

definition slept :: "string \<Rightarrow> string \<Rightarrow> string \<Rightarrow> int \<Rightarrow> string \<Rightarrow> state \<Rightarrow> state" where
  "slept t ra tok pp ba s =
     sleep_after_launch (next_pid s) (log_file_of t) (launched t ra tok pp ba s)"

subsection \<open>Examples\<close>

text \<open>A stored row used in the examples below.\<close>

definition example_row :: core_reset_config where
  "example_row = \<lparr>core = ''rathole'', enabled = False, interval_minutes = 30,
     last_reset = Some 1000, next_reset = None, updated_at = None\<rparr>"

definition env_ok :: os_env where
  "env_ok = \<lparr>primary_binary = True, system_binary = True,
     fate = (\<lambda>_. \<lparr>early_exit = None, child_output = ''ok'', term_exit = Some (- 15)\<rparr>),
     close_fails = (\<lambda>_. False), unlink_fails = (\<lambda>_. False), read_fails = (\<lambda>_. None),
     probe = (\<lambda>_. Listening)\<rparr>"

definition started_t1 :: "os_env \<Rightarrow> state" where
  "started_t1 e = snd (start_server ''t1'' ''0.0.0.0:23333'' ''abc'' 8989 (init_state e))"

definition term_events :: "handle \<Rightarrow> string \<Rightarrow> state \<Rightarrow> event list" where
  "term_events proc t s =
     (case proc of
        Proc pid \<Rightarrow>
          if returncode s pid = None
          then Sigterm pid # (case term_exit (fate (env s) pid) of
                                Some rc \<Rightarrow> [] | None \<Rightarrow> [Sigkill pid])
          else []
      | LogFile fd \<Rightarrow> [Log WARNING (Error_stopping t AttributeError)])"

definition close_events :: "string \<Rightarrow> state \<Rightarrow> event list" where
  "close_events t s =
     (case map_of (AList.delete t (active_servers s)) (t @ ''_log'') of
        Some (LogFile fd) \<Rightarrow> if close_fails (env s) fd then [] else [Closed fd]
      | _ \<Rightarrow> [])"

definition unlink_events :: "string \<Rightarrow> state \<Rightarrow> event list" where
  "unlink_events t s =
     (case map_of (server_configs s) t of
        None \<Rightarrow> []
      | Some cfg \<Rightarrow>
          if files s (cfg_config_path cfg) = None then []
          else if unlink_fails (env s) (cfg_config_path cfg)
               then [Log WARNING (Failed_to_delete (cfg_config_path cfg) (OSError ''unlink''))]
               else [Unlinked (cfg_config_path cfg)])"

definition stop_events :: "string \<Rightarrow> state \<Rightarrow> event list" where
  "stop_events t s =
     (case map_of (active_servers s) t of
        None \<Rightarrow> []
      | Some proc \<Rightarrow> term_events proc t s @ close_events t s @ [Log INFO (Stopped t)])
     @ unlink_events t s"


definition env_close_fails :: os_env where
  "env_close_fails = env_ok\<lparr>close_fails := (\<lambda>_. True)\<rparr>"


definition env_exit1 :: os_env where
  "env_exit1 = env_ok\<lparr>fate := (\<lambda>_. \<lparr>early_exit = Some 1, child_output = ''boom'',
                                        term_exit = Some (- 15)\<rparr>)\<rparr>"

definition existing_events :: "string \<Rightarrow> state \<Rightarrow> event list" where
  "existing_events t s =
     (if map_of (active_servers s) t = None then []
      else Log WARNING (Already_exists t) # stop_events t s)"

definition registered_fd :: "state \<Rightarrow> nat" where
  "registered_fd s = (if primary_binary (env s) then next_fd s else Suc (next_fd s))"

definition start_events :: "string \<Rightarrow> string \<Rightarrow> string \<Rightarrow> int \<Rightarrow> state \<Rightarrow> event list" where
  "start_events t ra tok pp s =
     (case bind_addr_of ra of
        Inl e \<Rightarrow> [Log ERROR (Failed_to_start t e)]
      | Inr ba \<Rightarrow>
          existing_events t s @
          (if \<not> (primary_binary (env s) \<or> system_binary (env s))
           then [Log ERROR (Failed_to_start t FileNotFoundError)]
           else Spawned (next_pid s) (launch_binary s) (config_path_of t) #
                (case early_exit (fate (env s) (next_pid s)) of
                   None \<Rightarrow> probe_events ba (next_pid s) s @ [Log INFO (Started t ba pp)]
                 | Some rc \<Rightarrow>
                     [Log ERROR (Start_failed (start_error_msg rc (log_file_of t)
                                                 (slept t ra tok pp ba s)))]
                     @ (if close_fails (env s) (registered_fd s) then []
                        else [Closed (registered_fd s)])
                     @ [Log ERROR (Failed_to_start t
                          (RuntimeError (start_error_msg rc (log_file_of t)
                                           (slept t ra tok pp ba s))))])))"

definition alive :: "state \<Rightarrow> string \<times> handle \<Rightarrow> bool" where
  "alive s item = (case snd item of Proc pid \<Rightarrow> returncode s pid = None | LogFile fd \<Rightarrow> False)"

definition all_processes :: "(string \<times> handle) list \<Rightarrow> bool" where
  "all_processes items = list_all (\<lambda>item. case snd item of Proc pid \<Rightarrow> True | LogFile fd \<Rightarrow> False) items"

definition prune :: "string \<Rightarrow> state \<Rightarrow> state" where
  "prune k s = (if map_of (server_configs s) k \<noteq> None then del_config k (del_active k s)
                else del_active k s)"

definition is_spawn :: "event \<Rightarrow> bool" where
  "is_spawn e = (case e of Spawned pid binary path \<Rightarrow> True | _ \<Rightarrow> False)"

definition launch_events_of :: "string \<Rightarrow> string \<Rightarrow> string \<Rightarrow> int \<Rightarrow> string \<Rightarrow> state \<Rightarrow> event list" where
  "launch_events_of t ra tok pp ba s =
     (if \<not> (primary_binary (env s) \<or> system_binary (env s))
      then [Log ERROR (Failed_to_start t FileNotFoundError)]
      else Spawned (next_pid s) (launch_binary s) (config_path_of t) #
           (case early_exit (fate (env s) (next_pid s)) of
              None \<Rightarrow> probe_events ba (next_pid s) s @ [Log INFO (Started t ba pp)]
            | Some rc \<Rightarrow>
                [Log ERROR (Start_failed (start_error_msg rc (log_file_of t)
                                            (slept t ra tok pp ba s)))]
                @ (if close_fails (env s) (registered_fd s) then []
                   else [Closed (registered_fd s)])
                @ [Log ERROR (Failed_to_start t
                     (RuntimeError (start_error_msg rc (log_file_of t)
                                      (slept t ra tok pp ba s))))]))"

definition events_since :: "state \<Rightarrow> state \<Rightarrow> event list" where
  "events_since s s' = drop (length (events s)) (events s')"

definition extends :: "state \<Rightarrow> state \<Rightarrow> bool" where
  "extends s s' \<longleftrightarrow> events s' = events s @ events_since s s'"


definition push_marker :: "string \<Rightarrow> string \<Rightarrow> event list \<Rightarrow> bool" where
  "push_marker node tid es \<longleftrightarrow>
     (\<exists>payload. Applied node tid payload \<in> set es)
     \<or> (\<exists>e. Log ERROR (Error_restarting_client tid node e) \<in> set es)"








text \<open>
  Three calls on a fresh manager: \<open>start_server\<close> for \<open>t1_log\<close>, then for \<open>t1\<close>, then
  for \<open>t1_log\<close> again; the states after the first, the second and the third call.
\<close>

definition collide_a :: state where
  "collide_a = snd (start_server ''t1_log'' ''0.0.0.0:23333'' ''abc'' 8989 (init_state env_ok))"

definition collide_b :: state where
  "collide_b = snd (start_server ''t1'' ''0.0.0.0:23334'' ''abc'' 8990 collide_a)"

definition collide_c :: state where
  "collide_c = snd (start_server ''t1_log'' ''0.0.0.0:23333'' ''abc'' 8989 collide_b)"

section \<open>Properties of the reset schedule\<close>

lemma rathole_in_CORES: "''rathole'' \<in> set CORES"
  by (simp add: CORES_def)

lemma put_reset_config_invalid:
  "c \<notin> set CORES \<Longrightarrow>
   put_reset_config c upd now1 now2 tbl = (Inl (HTTPException 400 (''Invalid core: '' @ c)), tbl)"
  by (simp add: put_reset_config_def update_reset_config_def open_session_def close_session_def)

lemma put_reset_config_reject:
  "upd_interval_minutes upd = Some m \<Longrightarrow> m < 1 \<Longrightarrow> c \<in> set CORES \<Longrightarrow>
   put_reset_config c upd now1 now2 tbl =
     (Inl (HTTPException 400 ''Interval must be at least 1 minute''), tbl)"
  by (simp add: put_reset_config_def update_reset_config_def Let_def session_put_def
      open_session_def close_session_def split: option.split prod.split)

lemma put_reset_config_accept:
  assumes "c \<in> set CORES" and "\<forall>m. upd_interval_minutes upd = Some m \<longrightarrow> 1 \<le> m"
  shows "put_reset_config c upd now1 now2 tbl =
           (Inr (response_of (updated_config c upd now1 now2 tbl)),
            tbl(c \<mapsto> updated_config c upd now1 now2 tbl))"
proof -
  have nr: "\<not> (case upd_interval_minutes upd of Some m \<Rightarrow> m < 1 | None \<Rightarrow> False)"
    using assms(2) by (auto split: option.split)
  show ?thesis
  proof (cases "tbl c")
    case None
    then show ?thesis using assms(1) nr
      apply (cases "upd_enabled upd"; cases "upd_interval_minutes upd")
      apply (simp_all add: put_reset_config_def update_reset_config_def Let_def session_put_def
        open_session_def close_session_def db_commit_def select_config_def updated_config_def new_config_def)
      done
  next
    case (Some cfg)
    then show ?thesis using assms(1) nr
      apply (cases "upd_enabled upd"; cases "upd_interval_minutes upd")
      apply (simp_all add: put_reset_config_def update_reset_config_def Let_def session_put_def
        open_session_def close_session_def db_commit_def select_config_def updated_config_def)
      done
  qed
qed

lemma put_reset_config_InrD:
  assumes "put_reset_config c upd now1 now2 tbl = (Inr r, tbl')"
  shows "c \<in> set CORES \<and> (\<forall>m. upd_interval_minutes upd = Some m \<longrightarrow> 1 \<le> m)"
proof -
  have 1: "c \<in> set CORES"
    using assms put_reset_config_invalid[of c upd now1 now2 tbl] by auto
  have 2: "1 \<le> m" if "upd_interval_minutes upd = Some m" for m
    using assms put_reset_config_reject[OF that _ 1, of now1 now2 tbl] by (cases "m < 1") auto
  show ?thesis using 1 2 by blast
qed

lemma updated_config_enabled:
  "enabled (updated_config c upd now1 now2 tbl) =
     (case upd_enabled upd of Some e \<Rightarrow> e
      | None \<Rightarrow> (case tbl c of Some cfg \<Rightarrow> enabled cfg | None \<Rightarrow> False))"
  by (simp add: updated_config_def Let_def new_config_def split: option.split)

lemma updated_config_interval:
  "interval_minutes (updated_config c upd now1 now2 tbl) =
     (case upd_interval_minutes upd of Some m \<Rightarrow> m
      | None \<Rightarrow> (case tbl c of Some cfg \<Rightarrow> interval_minutes cfg | None \<Rightarrow> 10))"
  by (simp add: updated_config_def Let_def new_config_def split: option.split)

lemma updated_config_last_reset:
  "last_reset (updated_config c upd now1 now2 tbl) =
     (case tbl c of Some cfg \<Rightarrow> last_reset cfg | None \<Rightarrow> None)"
  by (simp add: updated_config_def Let_def new_config_def split: option.split)

lemma updated_config_next_reset:
  "next_reset (updated_config c upd now1 now2 tbl) =
     (let u = updated_config c upd now1 now2 tbl in
      if enabled u \<and> interval_minutes u \<noteq> 0
      then Some ((case last_reset u of Some t \<Rightarrow> t | None \<Rightarrow> now1) + minutes (interval_minutes u))
      else None)"
  by (simp add: updated_config_def Let_def compute_next_reset_def split: option.split)

text \<open>
  Claim C6. After the config-update endpoint has run (returned a response), the stored
  row has \<open>next_reset\<close> set if and only if \<open>enabled\<close> is true and
  \<open>interval_minutes\<close> is set (non-zero); it is then \<open>last_reset\<close> plus the interval
  when \<open>last_reset\<close> exists, else the current time plus the interval. With
  \<open>interval_minutes = 10\<close>, \<open>enabled = true\<close> and \<open>last_reset = T\<close> it is \<open>T\<close> plus
  exactly ten minutes; with \<open>enabled = false\<close> it is null whatever \<open>last_reset\<close> is.
  Every request for a known core with no interval below 1 is accepted.
\<close>

theorem update_reset_config_next_reset:
  "(put_reset_config c upd now1 now2 tbl = (Inr r, tbl') \<longrightarrow>
      (\<exists>cfg. tbl' c = Some cfg \<and> r = response_of cfg
         \<and> (next_reset cfg \<noteq> None \<longleftrightarrow> enabled cfg \<and> interval_minutes cfg \<noteq> 0)
         \<and> (enabled cfg \<and> interval_minutes cfg \<noteq> 0 \<longrightarrow>
              next_reset cfg = Some ((case last_reset cfg of Some t \<Rightarrow> t | None \<Rightarrow> now1)
                                      + minutes (interval_minutes cfg)))
         \<and> (upd_enabled upd = Some False \<longrightarrow> next_reset cfg = None)
         \<and> (\<forall>cfg0 T. tbl c = Some cfg0 \<and> last_reset cfg0 = Some T
                \<and> upd_enabled upd = Some True \<and> upd_interval_minutes upd = Some 10
              \<longrightarrow> next_reset cfg = Some (T + 600000000))
         \<and> ((\<forall>cfg0. tbl c = Some cfg0 \<longrightarrow> 1 \<le> interval_minutes cfg0)
              \<longrightarrow> 1 \<le> interval_minutes cfg \<and> (next_reset cfg \<noteq> None \<longleftrightarrow> enabled cfg))))
   \<and> (c \<in> set CORES \<and> (\<forall>m. upd_interval_minutes upd = Some m \<longrightarrow> 1 \<le> m) \<longrightarrow>
        (\<exists>r tbl'. put_reset_config c upd now1 now2 tbl = (Inr r, tbl')))"
proof (intro conjI impI)
  assume ok: "put_reset_config c upd now1 now2 tbl = (Inr r, tbl')"
  let ?u = "updated_config c upd now1 now2 tbl"
  from put_reset_config_InrD[OF ok]
  have eq: "put_reset_config c upd now1 now2 tbl = (Inr (response_of ?u), tbl(c \<mapsto> ?u))"
    by (intro put_reset_config_accept) auto
  with ok have r: "r = response_of ?u" and t: "tbl' = tbl(c \<mapsto> ?u)" by auto
  have a: "next_reset ?u \<noteq> None \<longleftrightarrow> enabled ?u \<and> interval_minutes ?u \<noteq> 0"
    by (simp add: updated_config_next_reset[of c upd now1 now2 tbl] Let_def)
  have b: "enabled ?u \<and> interval_minutes ?u \<noteq> 0 \<longrightarrow>
      next_reset ?u = Some ((case last_reset ?u of Some t \<Rightarrow> t | None \<Rightarrow> now1)
                                      + minutes (interval_minutes ?u))"
    by (simp add: updated_config_next_reset[of c upd now1 now2 tbl] Let_def)
  have c: "upd_enabled upd = Some False \<longrightarrow> next_reset ?u = None"
    by (simp add: updated_config_next_reset[of c upd now1 now2 tbl] Let_def updated_config_enabled)
  have d: "\<forall>cfg0 T. tbl c = Some cfg0 \<and> last_reset cfg0 = Some T
                \<and> upd_enabled upd = Some True \<and> upd_interval_minutes upd = Some 10
              \<longrightarrow> next_reset ?u = Some (T + 600000000)"
    by (simp add: updated_config_next_reset[of c upd now1 now2 tbl] Let_def updated_config_enabled
        updated_config_interval updated_config_last_reset minutes_def)
  have e: "(\<forall>cfg0. tbl c = Some cfg0 \<longrightarrow> 1 \<le> interval_minutes cfg0)
              \<longrightarrow> 1 \<le> interval_minutes ?u \<and> (next_reset ?u \<noteq> None \<longleftrightarrow> enabled ?u)"
  proof
    assume inv: "\<forall>cfg0. tbl c = Some cfg0 \<longrightarrow> 1 \<le> interval_minutes cfg0"
    have "1 \<le> interval_minutes ?u"
      using inv put_reset_config_InrD[OF ok]
      by (auto simp: updated_config_interval split: option.split)
    with a show "1 \<le> interval_minutes ?u \<and> (next_reset ?u \<noteq> None \<longleftrightarrow> enabled ?u)" by auto
  qed
  from a b c d e r t
  show "\<exists>cfg. tbl' c = Some cfg \<and> r = response_of cfg
         \<and> (next_reset cfg \<noteq> None \<longleftrightarrow> enabled cfg \<and> interval_minutes cfg \<noteq> 0)
         \<and> (enabled cfg \<and> interval_minutes cfg \<noteq> 0 \<longrightarrow>
              next_reset cfg = Some ((case last_reset cfg of Some t \<Rightarrow> t | None \<Rightarrow> now1)
                                      + minutes (interval_minutes cfg)))
         \<and> (upd_enabled upd = Some False \<longrightarrow> next_reset cfg = None)
         \<and> (\<forall>cfg0 T. tbl c = Some cfg0 \<and> last_reset cfg0 = Some T
                \<and> upd_enabled upd = Some True \<and> upd_interval_minutes upd = Some 10
              \<longrightarrow> next_reset cfg = Some (T + 600000000))
         \<and> ((\<forall>cfg0. tbl c = Some cfg0 \<longrightarrow> 1 \<le> interval_minutes cfg0)
              \<longrightarrow> 1 \<le> interval_minutes cfg \<and> (next_reset cfg \<noteq> None \<longleftrightarrow> enabled cfg))"
    by (intro exI[of _ ?u]) simp
next
  assume "c \<in> set CORES \<and> (\<forall>m. upd_interval_minutes upd = Some m \<longrightarrow> 1 \<le> m)"
  then show "\<exists>r tbl'. put_reset_config c upd now1 now2 tbl = (Inr r, tbl')"
    using put_reset_config_accept[of c upd now1 now2 tbl] by blast
qed

text \<open>
  Claim C7. A config update with \<open>interval_minutes < 1\<close> is rejected with a client
  error (status 400) and the stored configuration is what it was before the request: the
  \<open>enabled\<close> flag of the same request was assigned in the session only and is never
  committed.
\<close>

theorem update_reset_config_rejects_small_interval:
  assumes "upd_interval_minutes upd = Some m" and "m < 1"
  shows "(\<exists>detail. fst (put_reset_config c upd now1 now2 tbl) = Inl (HTTPException 400 detail))
         \<and> snd (put_reset_config c upd now1 now2 tbl) = tbl"
proof (cases "c \<in> set CORES")
  case True
  from put_reset_config_reject[OF assms True] show ?thesis by simp
next
  case False
  from put_reset_config_invalid[OF False] show ?thesis by simp
qed

theorem update_reset_config_rejects_small_interval_witness:
  "upd_interval_minutes \<lparr>upd_enabled = Some True, upd_interval_minutes = Some 0\<rparr> = Some 0
   \<and> (0::int) < 1
   \<and> put_reset_config ''rathole'' \<lparr>upd_enabled = Some True, upd_interval_minutes = Some 0\<rparr> 5 6
        [''rathole'' \<mapsto> example_row]
      = (Inl (HTTPException 400 ''Interval must be at least 1 minute''), [''rathole'' \<mapsto> example_row])"
proof -
  let ?upd = "\<lparr>upd_enabled = Some True, upd_interval_minutes = Some (0::int)\<rparr>"
  let ?tbl = "[''rathole'' \<mapsto> example_row]"
  have h1: "upd_interval_minutes ?upd = Some 0" by simp
  have h2: "(0::int) < 1" by simp
  from update_reset_config_rejects_small_interval[OF h1 h2, of "''rathole''" 5 6 ?tbl]
  obtain detail where d: "fst (put_reset_config ''rathole'' ?upd 5 6 ?tbl) = Inl (HTTPException 400 detail)"
    and s: "snd (put_reset_config ''rathole'' ?upd 5 6 ?tbl) = ?tbl" by blast
  have "fst (put_reset_config ''rathole'' ?upd 5 6 ?tbl)
          = Inl (HTTPException 400 ''Interval must be at least 1 minute'')"
    by (simp add: put_reset_config_def update_reset_config_def CORES_def Let_def
        select_config_def open_session_def session_put_def)
  with s h1 h2 show ?thesis by (simp add: prod_eq_iff)
qed

theorem update_reset_config_next_reset_witness:
  "put_reset_config ''rathole'' \<lparr>upd_enabled = Some True, upd_interval_minutes = Some 10\<rparr> 5 6
        [''rathole'' \<mapsto> example_row]
     = (Inr \<lparr>resp_core = ''rathole'', resp_enabled = True, resp_interval_minutes = 10,
             resp_last_reset = Some 1000, resp_next_reset = Some 600001000\<rparr>,
        [''rathole'' \<mapsto> example_row\<lparr>enabled := True, interval_minutes := 10,
             next_reset := Some 600001000, updated_at := Some 6\<rparr>])
   \<and> (\<exists>cfg. [''rathole'' \<mapsto> example_row\<lparr>enabled := True, interval_minutes := 10,
             next_reset := Some 600001000, updated_at := Some 6\<rparr>] ''rathole'' = Some cfg
          \<and> next_reset cfg = Some (1000 + 600000000))"
proof -
  let ?upd = "\<lparr>upd_enabled = Some True, upd_interval_minutes = Some (10::int)\<rparr>"
  let ?tbl = "[''rathole'' \<mapsto> example_row]"
  let ?r = "\<lparr>resp_core = ''rathole'', resp_enabled = True, resp_interval_minutes = 10,
             resp_last_reset = Some 1000, resp_next_reset = Some 600001000\<rparr>"
  let ?tbl' = "[''rathole'' \<mapsto> example_row\<lparr>enabled := True, interval_minutes := 10,
             next_reset := Some 600001000, updated_at := Some 6\<rparr>]"
  have run: "put_reset_config ''rathole'' ?upd 5 6 ?tbl = (Inr ?r, ?tbl')"
    by (simp add: put_reset_config_def update_reset_config_def CORES_def Let_def
        select_config_def open_session_def session_put_def close_session_def db_commit_def
        compute_next_reset_def minutes_def response_of_def example_row_def)
  from update_reset_config_next_reset[of "''rathole''" ?upd 5 6 ?tbl ?r ?tbl'] run
  obtain cfg where c: "?tbl' ''rathole'' = Some cfg"
    and n: "\<forall>cfg0 T. ?tbl ''rathole'' = Some cfg0 \<and> last_reset cfg0 = Some T
                \<and> upd_enabled ?upd = Some True \<and> upd_interval_minutes ?upd = Some 10
              \<longrightarrow> next_reset cfg = Some (T + 600000000)"
    by blast
  from n have "next_reset cfg = Some (1000 + 600000000)"
    by (simp add: example_row_def)
  with c run show ?thesis by blast
qed

section \<open>Properties of the Rathole server manager\<close>

subsection \<open>What each step changes\<close>

lemma delete_absent: "map_of al k = None \<Longrightarrow> AList.delete k al = al"
  by (simp add: map_of_eq_None_iff)

lemma emit_fields [simp]:
  "active_servers (emit e s) = active_servers s"
  "server_configs (emit e s) = server_configs s"
  "files (emit e s) = files s"
  "returncode (emit e s) = returncode s"
  "next_pid (emit e s) = next_pid s"
  "next_fd (emit e s) = next_fd s"
  "env (emit e s) = env s"
  "events (emit e s) = events s @ [e]"
  by (simp_all add: emit_def)

lemma log_fields [simp]:
  "active_servers (log l m s) = active_servers s"
  "server_configs (log l m s) = server_configs s"
  "files (log l m s) = files s"
  "returncode (log l m s) = returncode s"
  "next_pid (log l m s) = next_pid s"
  "next_fd (log l m s) = next_fd s"
  "env (log l m s) = env s"
  "events (log l m s) = events s @ [Log l m]"
  by (simp_all add: log_def)

lemma del_active_fields [simp]:
  "active_servers (del_active k s) = AList.delete k (active_servers s)"
  "server_configs (del_active k s) = server_configs s"
  "files (del_active k s) = files s"
  "returncode (del_active k s) = returncode s"
  "next_pid (del_active k s) = next_pid s"
  "next_fd (del_active k s) = next_fd s"
  "env (del_active k s) = env s"
  "events (del_active k s) = events s"
  by (simp_all add: del_active_def)

lemma del_config_fields [simp]:
  "active_servers (del_config k s) = active_servers s"
  "server_configs (del_config k s) = AList.delete k (server_configs s)"
  "files (del_config k s) = files s"
  "returncode (del_config k s) = returncode s"
  "next_pid (del_config k s) = next_pid s"
  "next_fd (del_config k s) = next_fd s"
  "env (del_config k s) = env s"
  "events (del_config k s) = events s"
  by (simp_all add: del_config_def)

lemma close_fields [simp]:
  "active_servers (snd (close h s)) = active_servers s"
  "server_configs (snd (close h s)) = server_configs s"
  "files (snd (close h s)) = files s"
  "returncode (snd (close h s)) = returncode s"
  "next_pid (snd (close h s)) = next_pid s"
  "next_fd (snd (close h s)) = next_fd s"
  "env (snd (close h s)) = env s"
  by (cases h; simp)+

lemma close_events:
  "events (snd (close h s)) =
     events s @ (case h of LogFile fd \<Rightarrow> if close_fails (env s) fd then [] else [Closed fd]
                 | Proc pid \<Rightarrow> [])"
  by (cases h) simp_all

lemma forget_entries_fields [simp]:
  "server_configs (forget_entries t s) = server_configs s"
  "files (forget_entries t s) = files s"
  "returncode (forget_entries t s) = returncode s"
  "next_pid (forget_entries t s) = next_pid s"
  "next_fd (forget_entries t s) = next_fd s"
  "env (forget_entries t s) = env s"
  by (simp_all add: forget_entries_def Let_def split: option.split)

lemma forget_entries_active [simp]:
  "active_servers (forget_entries t s) =
     AList.delete (t @ ''_log'') (AList.delete t (active_servers s))"
  by (simp add: forget_entries_def Let_def delete_absent split: option.split)

lemma forget_entries_events:
  "events (forget_entries t s) =
     events s @ (case map_of (AList.delete t (active_servers s)) (t @ ''_log'') of
                   Some (LogFile fd) \<Rightarrow> if close_fails (env s) fd then [] else [Closed fd]
                 | _ \<Rightarrow> [])"
  by (simp add: forget_entries_def Let_def close_events split: option.split handle.split)

lemma stop_process_no_exn: "fst (stop_process t proc s) = None"
  by (cases proc) (simp_all add: stop_process_def Let_def split: option.split prod.split)

lemma stop_process_fields [simp]:
  "server_configs (snd (stop_process t proc s)) = server_configs s"
  "files (snd (stop_process t proc s)) = files s"
  "next_pid (snd (stop_process t proc s)) = next_pid s"
  "next_fd (snd (stop_process t proc s)) = next_fd s"
  "env (snd (stop_process t proc s)) = env s"
  "active_servers (snd (stop_process t proc s)) =
     AList.delete (t @ ''_log'') (AList.delete t (active_servers s))"
  by (cases proc; simp add: stop_process_def Let_def split: option.split prod.split)+

lemma stop_process_returncode:
  "returncode (snd (stop_process t proc s)) =
     (case proc of
        Proc pid \<Rightarrow>
          if returncode s pid = None
          then (returncode s)(pid := Some (case term_exit (fate (env s) pid) of
                                            Some rc \<Rightarrow> rc | None \<Rightarrow> - 9))
          else returncode s
      | LogFile fd \<Rightarrow> returncode s)"
  by (cases proc) (auto simp add: stop_process_def Let_def split: option.split prod.split)

lemma stop_process_events:
  "events (snd (stop_process t proc s)) =
     events s
     @ (case proc of
          Proc pid \<Rightarrow>
            if returncode s pid = None
            then Sigterm pid # (case term_exit (fate (env s) pid) of
                                  Some rc \<Rightarrow> [] | None \<Rightarrow> [Sigkill pid])
            else []
        | LogFile fd \<Rightarrow> [Log WARNING (Error_stopping t AttributeError)])
     @ (case map_of (AList.delete t (active_servers s)) (t @ ''_log'') of
          Some (LogFile fd) \<Rightarrow> if close_fails (env s) fd then [] else [Closed fd]
        | _ \<Rightarrow> [])
     @ [Log INFO (Stopped t)]"
  by (cases proc) (auto simp add: stop_process_def Let_def forget_entries_events split: option.split prod.split handle.split)

lemma remove_config_fields [simp]:
  "active_servers (remove_config t s) = active_servers s"
  "returncode (remove_config t s) = returncode s"
  "next_pid (remove_config t s) = next_pid s"
  "next_fd (remove_config t s) = next_fd s"
  "env (remove_config t s) = env s"
  "server_configs (remove_config t s) = AList.delete t (server_configs s)"
  by (simp_all add: remove_config_def Let_def delete_absent split: option.split)


lemma remove_config_events:
  "events (remove_config t s) =
     events s @
     (case map_of (server_configs s) t of
        None \<Rightarrow> []
      | Some cfg \<Rightarrow>
          if files s (cfg_config_path cfg) = None then []
          else if unlink_fails (env s) (cfg_config_path cfg)
               then [Log WARNING (Failed_to_delete (cfg_config_path cfg) (OSError ''unlink''))]
               else [Unlinked (cfg_config_path cfg)])"
  by (auto simp add: remove_config_def Let_def split: option.split)

lemma stop_server_no_exn: "fst (stop_server t s) = None"
proof (cases "map_of (active_servers s) t")
  case None
  then show ?thesis by (simp add: stop_server_def)
next
  case (Some proc)
  obtain s1 where "stop_process t proc s = (None, s1)"
    using stop_process_no_exn[of t proc s] by (cases "stop_process t proc s") auto
  with Some show ?thesis by (simp add: stop_server_def)
qed

lemma stop_server_snd:
  "snd (stop_server t s) =
     remove_config t (case map_of (active_servers s) t of
                        None \<Rightarrow> s
                      | Some proc \<Rightarrow> snd (stop_process t proc s))"
proof (cases "map_of (active_servers s) t")
  case None
  then show ?thesis by (simp add: stop_server_def)
next
  case (Some proc)
  obtain s1 where "stop_process t proc s = (None, s1)"
    using stop_process_no_exn[of t proc s] by (cases "stop_process t proc s") auto
  with Some show ?thesis by (simp add: stop_server_def)
qed

lemma stop_server_eq: "stop_server t s = (None, snd (stop_server t s))"
  using stop_server_no_exn[of t s] by (simp add: prod_eq_iff)

lemma stop_server_fields [simp]:
  "next_pid (snd (stop_server t s)) = next_pid s"
  "next_fd (snd (stop_server t s)) = next_fd s"
  "env (snd (stop_server t s)) = env s"
  "server_configs (snd (stop_server t s)) = AList.delete t (server_configs s)"
  by (simp_all add: stop_server_snd split: option.split)

lemma stop_server_active:
  "active_servers (snd (stop_server t s)) =
     (if map_of (active_servers s) t = None then active_servers s
      else AList.delete (t @ ''_log'') (AList.delete t (active_servers s)))"
  by (simp add: stop_server_snd split: option.split)


lemma stop_server_returncode:
  "returncode (snd (stop_server t s)) =
     (case map_of (active_servers s) t of
        Some (Proc pid) \<Rightarrow>
          if returncode s pid = None
          then (returncode s)(pid := Some (case term_exit (fate (env s) pid) of
                                            Some rc \<Rightarrow> rc | None \<Rightarrow> - 9))
          else returncode s
      | _ \<Rightarrow> returncode s)"
  by (simp add: stop_server_snd stop_process_returncode split: option.split handle.split)


lemma stop_existing_no_exn: "fst (stop_existing t s) = None"
  by (simp add: stop_existing_def stop_server_no_exn)

lemma stop_existing_eq: "stop_existing t s = (None, snd (stop_existing t s))"
  using stop_existing_no_exn[of t s] by (simp add: prod_eq_iff)

lemma stop_existing_fields [simp]:
  "next_pid (snd (stop_existing t s)) = next_pid s"
  "next_fd (snd (stop_existing t s)) = next_fd s"
  "env (snd (stop_existing t s)) = env s"
  by (simp_all add: stop_existing_def)

lemma stop_existing_active:
  "active_servers (snd (stop_existing t s)) =
     (if map_of (active_servers s) t = None then active_servers s
      else AList.delete (t @ ''_log'') (AList.delete t (active_servers s)))"
  by (simp add: stop_existing_def stop_server_active)

lemma stop_existing_lookup [simp]:
  "map_of (active_servers (snd (stop_existing t s))) t = None"
  by (simp add: stop_existing_active AList.delete_conv')

lemma stop_existing_returncode:
  "returncode (snd (stop_existing t s)) =
     (case map_of (active_servers s) t of
        Some (Proc pid) \<Rightarrow>
          if returncode s pid = None
          then (returncode s)(pid := Some (case term_exit (fate (env s) pid) of
                                            Some rc \<Rightarrow> rc | None \<Rightarrow> - 9))
          else returncode s
      | _ \<Rightarrow> returncode s)"
  by (simp add: stop_existing_def stop_server_returncode split: option.split handle.split)

lemma store_config_fields [simp]:
  "active_servers (store_config t ra tok pp ba s) = active_servers s"
  "returncode (store_config t ra tok pp ba s) = returncode s"
  "next_pid (store_config t ra tok pp ba s) = next_pid s"
  "next_fd (store_config t ra tok pp ba s) = next_fd s"
  "env (store_config t ra tok pp ba s) = env s"
  "events (store_config t ra tok pp ba s) = events s"
  "files (store_config t ra tok pp ba s) =
     (files s)(config_path_of t \<mapsto> render_config ba tok t pp)"
  "server_configs (store_config t ra tok pp ba s) =
     AList.update t \<lparr>cfg_remote_addr = ra, cfg_token = tok, cfg_proxy_port = pp,
                     cfg_bind_addr = ba, cfg_config_path = config_path_of t\<rparr>
       (server_configs s)"
  by (simp_all add: store_config_def Let_def write_file_def)

lemma register_fields [simp]:
  "active_servers (register t fd pid s) =
     AList.update t (Proc pid) (AList.update (t @ ''_log'') (LogFile fd) (active_servers s))"
  "server_configs (register t fd pid s) = server_configs s"
  "returncode (register t fd pid s) = returncode s"
  "next_pid (register t fd pid s) = next_pid s"
  "next_fd (register t fd pid s) = next_fd s"
  "env (register t fd pid s) = env s"
  "events (register t fd pid s) = events s"
  "files (register t fd pid s) = files s"
  by (simp_all add: register_def)

lemma launch_Inl:
  "\<not> primary_binary (env s) \<Longrightarrow> \<not> system_binary (env s) \<Longrightarrow>
   fst (launch t ba pp cp config lf s) = Inl FileNotFoundError"
  by (simp add: launch_def open_log_def write_file_def Let_def)

lemma launch_Inr:
  assumes "primary_binary (env s) \<or> system_binary (env s)"
  shows "\<exists>s'. launch t ba pp cp config lf s =
           (Inr (if primary_binary (env s) then next_fd s else Suc (next_fd s), next_pid s), s')
         \<and> active_servers s' = active_servers s
         \<and> server_configs s' = server_configs s
         \<and> env s' = env s
         \<and> next_pid s' = Suc (next_pid s)
         \<and> returncode s' = (returncode s)(next_pid s := None)
         \<and> files s' = (files s)(lf \<mapsto> launch_preamble t ba pp cp config s)
         \<and> events s' = events s @ [Spawned (next_pid s) (launch_binary s) cp]"
  using assms
  by (cases "primary_binary (env s)")
     (simp_all add: launch_def open_log_def write_file_def popen_def Let_def
        launch_binary_def launch_preamble_def)

lemma launch_cases:
  "fst (launch t ba pp cp config lf s) = Inl FileNotFoundError
   \<or> (\<exists>fd. fst (launch t ba pp cp config lf s) = Inr (fd, next_pid s))"
proof (cases "primary_binary (env s) \<or> system_binary (env s)")
  case True
  from launch_Inr[OF True, of t ba pp cp config lf] show ?thesis by auto
next
  case False
  then show ?thesis using launch_Inl[of s t ba pp cp config lf] by simp
qed

lemma launch_fields [simp]:
  "active_servers (snd (launch t ba pp cp config lf s)) = active_servers s"
  "server_configs (snd (launch t ba pp cp config lf s)) = server_configs s"
  "env (snd (launch t ba pp cp config lf s)) = env s"
  by (simp_all add: launch_def open_log_def write_file_def popen_def Let_def)

lemma launch_events:
  "events (snd (launch t ba pp cp config lf s)) =
     events s @ (if primary_binary (env s) \<or> system_binary (env s)
                 then [Spawned (next_pid s) (launch_binary s) cp] else [])"
  by (simp add: launch_def open_log_def write_file_def popen_def Let_def launch_binary_def)

lemma launch_returncode:
  "returncode (snd (launch t ba pp cp config lf s)) =
     (if primary_binary (env s) \<or> system_binary (env s)
      then (returncode s)(next_pid s := None) else returncode s)"
  by (simp add: launch_def open_log_def write_file_def popen_def Let_def)

lemma launch_next_pid:
  "next_pid (snd (launch t ba pp cp config lf s)) =
     (if primary_binary (env s) \<or> system_binary (env s) then Suc (next_pid s) else next_pid s)"
  by (simp add: launch_def open_log_def write_file_def popen_def Let_def)

lemma launch_files_other:
  "p \<noteq> lf \<Longrightarrow> files (snd (launch t ba pp cp config lf s)) p = files s p"
  by (simp add: launch_def open_log_def write_file_def popen_def Let_def)

lemma launch_files_log:
  "files (snd (launch t ba pp cp config lf s)) lf \<noteq> None"
  by (simp add: launch_def open_log_def write_file_def popen_def Let_def)

lemma sleep_fields [simp]:
  "active_servers (sleep_after_launch pid lf s) = active_servers s"
  "server_configs (sleep_after_launch pid lf s) = server_configs s"
  "env (sleep_after_launch pid lf s) = env s"
  "next_pid (sleep_after_launch pid lf s) = next_pid s"
  "next_fd (sleep_after_launch pid lf s) = next_fd s"
  "events (sleep_after_launch pid lf s) = events s"
  "returncode (sleep_after_launch pid lf s) = (returncode s)(pid := early_exit (fate (env s) pid))"
  by (simp_all add: sleep_after_launch_def)

lemma sleep_files_other:
  "p \<noteq> lf \<Longrightarrow> files (sleep_after_launch pid lf s) p = files s p"
  by (simp add: sleep_after_launch_def split: option.split)

lemma sleep_files_log:
  "files (sleep_after_launch pid lf s) lf =
     map_option (\<lambda>text. text @ child_output (fate (env s) pid)) (files s lf)"
  by (simp add: sleep_after_launch_def split: option.split)

lemma verify_port_fields [simp]:
  "active_servers (verify_port ba pid s) = active_servers s"
  "server_configs (verify_port ba pid s) = server_configs s"
  "env (verify_port ba pid s) = env s"
  "next_pid (verify_port ba pid s) = next_pid s"
  "next_fd (verify_port ba pid s) = next_fd s"
  "files (verify_port ba pid s) = files s"
  "returncode (verify_port ba pid s) = returncode s"
  by (simp_all add: verify_port_def split: probe_result.split)

lemma verify_port_events:
  "events (verify_port ba pid s) = events s @ probe_events ba pid s"
  by (simp add: verify_port_def probe_events_def split: probe_result.split)

lemma start_rollback_fields [simp]:
  "env (start_rollback t s) = env s"
  "next_pid (start_rollback t s) = next_pid s"
  "next_fd (start_rollback t s) = next_fd s"
  "files (start_rollback t s) = files s"
  "returncode (start_rollback t s) = returncode s"
  "active_servers (start_rollback t s) =
     AList.delete (t @ ''_log'') (AList.delete t (active_servers s))"
  "server_configs (start_rollback t s) = AList.delete t (server_configs s)"
  by (simp_all add: start_rollback_def Let_def delete_absent)

lemma start_rollback_events:
  "events (start_rollback t s) =
     events s @ (case map_of (AList.delete t (active_servers s)) (t @ ''_log'') of
                   Some (LogFile fd) \<Rightarrow> if close_fails (env s) fd then [] else [Closed fd]
                 | _ \<Rightarrow> [])"
  by (simp add: start_rollback_def Let_def forget_entries_events)

lemma check_started_alive:
  assumes "early_exit (fate (env s) pid) = None"
  shows "check_started t ba pp pid s =
           (Inr True, log INFO (Started t ba pp)
                        (verify_port ba pid (sleep_after_launch pid (log_file_of t) s)))"
  using assms by (simp add: check_started_def Let_def)

lemma check_started_exited:
  assumes "early_exit (fate (env s) pid) = Some rc"
  shows "check_started t ba pp pid s =
           (Inl (RuntimeError (start_error_msg rc (log_file_of t)
                                 (sleep_after_launch pid (log_file_of t) s))),
            start_rollback t
              (log ERROR (Start_failed (start_error_msg rc (log_file_of t)
                                          (sleep_after_launch pid (log_file_of t) s)))
                 (sleep_after_launch pid (log_file_of t) s)))"
  using assms by (simp add: check_started_def Let_def)

lemma config_path_neq_log_file [simp]:
  "config_path_of t \<noteq> log_file_of t" "log_file_of t \<noteq> config_path_of t"
proof -
  have "last (config_path_of t) = CHR ''l''"
    by (simp add: config_path_of_def in_config_dir_def)
  moreover have "last (log_file_of t) = CHR ''g''"
    by (simp add: log_file_of_def in_config_dir_def)
  ultimately show "config_path_of t \<noteq> log_file_of t" "log_file_of t \<noteq> config_path_of t"
    by auto
qed

lemma pre_launch_fields [simp]:
  "env (pre_launch t ra tok pp ba s) = env s"
  "next_pid (pre_launch t ra tok pp ba s) = next_pid s"
  "next_fd (pre_launch t ra tok pp ba s) = next_fd s"
  by (simp_all add: pre_launch_def)

lemma start_server_body_eq:
  assumes "bind_addr_of ra = Inr ba"
  shows "start_server_body t ra tok pp s =
     (case launch t ba pp (config_path_of t) (render_config ba tok t pp) (log_file_of t)
             (pre_launch t ra tok pp ba s) of
        (Inl e, s3) \<Rightarrow> (Inl e, s3)
      | (Inr (log_f, pid), s3) \<Rightarrow> check_started t ba pp pid (register t log_f pid s3))"
  using assms stop_existing_no_exn[of t s]
  by (simp add: start_server_body_def pre_launch_def Let_def case_prod_beta)

lemma start_server_bad_addr:
  assumes "bind_addr_of ra = Inl e"
  shows "start_server t ra tok pp s = (Inl e, log ERROR (Failed_to_start t e) s)"
  using assms by (simp add: start_server_def start_server_body_def)

lemma start_server_no_binary:
  assumes "bind_addr_of ra = Inr ba"
    and "\<not> primary_binary (env s)" and "\<not> system_binary (env s)"
  shows "start_server t ra tok pp s =
           (Inl FileNotFoundError,
            log ERROR (Failed_to_start t FileNotFoundError)
              (snd (launch t ba pp (config_path_of t) (render_config ba tok t pp) (log_file_of t)
                      (pre_launch t ra tok pp ba s))))"
proof -
  let ?l = "launch t ba pp (config_path_of t) (render_config ba tok t pp) (log_file_of t)
                      (pre_launch t ra tok pp ba s)"
  have "fst ?l = Inl FileNotFoundError"
    using assms(2,3) by (intro launch_Inl) simp_all
  then show ?thesis
    by (simp add: start_server_def start_server_body_eq[OF assms(1)] case_prod_beta)
qed

lemma launch_fst:
  assumes "primary_binary (env s) \<or> system_binary (env s)"
  shows "fst (launch t ba pp (config_path_of t) (render_config ba tok t pp) (log_file_of t)
             (pre_launch t ra tok pp ba s))
         = Inr (if primary_binary (env s) then next_fd s else Suc (next_fd s), next_pid s)"
proof -
  have "primary_binary (env (pre_launch t ra tok pp ba s))
        \<or> system_binary (env (pre_launch t ra tok pp ba s))"
    using assms by simp
  from launch_Inr[OF this, of t ba pp "config_path_of t" "render_config ba tok t pp" "log_file_of t"]
  show ?thesis by auto
qed

lemma start_server_body_launched:
  assumes "bind_addr_of ra = Inr ba" and "primary_binary (env s) \<or> system_binary (env s)"
  shows "start_server_body t ra tok pp s =
           check_started t ba pp (next_pid s) (launched t ra tok pp ba s)"
  by (simp add: start_server_body_eq[OF assms(1)] launch_fst[OF assms(2)] launched_def
      case_prod_beta)

lemma launched_fields [simp]:
  "env (launched t ra tok pp ba s) = env s"
  "server_configs (launched t ra tok pp ba s) =
     AList.update t \<lparr>cfg_remote_addr = ra, cfg_token = tok, cfg_proxy_port = pp,
                     cfg_bind_addr = ba, cfg_config_path = config_path_of t\<rparr>
       (server_configs (snd (stop_existing t s)))"
  "active_servers (launched t ra tok pp ba s) =
     AList.update t (Proc (next_pid s))
       (AList.update (t @ ''_log'')
          (LogFile (if primary_binary (env s) then next_fd s else Suc (next_fd s)))
          (active_servers (snd (stop_existing t s))))"
  "files (launched t ra tok pp ba s) (config_path_of t) = Some (render_config ba tok t pp)"
  by (simp_all add: launched_def pre_launch_def launch_files_other)

lemma start_server_alive:
  assumes "bind_addr_of ra = Inr ba" and "primary_binary (env s) \<or> system_binary (env s)"
    and "early_exit (fate (env s) (next_pid s)) = None"
  shows "start_server t ra tok pp s =
           (Inr True, log INFO (Started t ba pp)
                        (verify_port ba (next_pid s) (slept t ra tok pp ba s)))"
  using assms(3)
  by (simp add: start_server_def start_server_body_launched[OF assms(1,2)]
      check_started_alive slept_def)

lemma start_server_exited:
  assumes "bind_addr_of ra = Inr ba" and "primary_binary (env s) \<or> system_binary (env s)"
    and "early_exit (fate (env s) (next_pid s)) = Some rc"
  shows "start_server t ra tok pp s =
           (Inl (RuntimeError (start_error_msg rc (log_file_of t) (slept t ra tok pp ba s))),
            log ERROR (Failed_to_start t
                         (RuntimeError (start_error_msg rc (log_file_of t) (slept t ra tok pp ba s))))
              (start_rollback t
                 (log ERROR (Start_failed (start_error_msg rc (log_file_of t) (slept t ra tok pp ba s)))
                    (slept t ra tok pp ba s))))"
  using assms(3)
  by (simp add: start_server_def start_server_body_launched[OF assms(1,2)]
      check_started_exited slept_def)

lemma start_server_InrD:
  assumes "start_server t ra tok pp s = (Inr b, s1)"
  shows "\<exists>ba. bind_addr_of ra = Inr ba
           \<and> (primary_binary (env s) \<or> system_binary (env s))
           \<and> early_exit (fate (env s) (next_pid s)) = None
           \<and> b = True
           \<and> s1 = log INFO (Started t ba pp) (verify_port ba (next_pid s) (slept t ra tok pp ba s))"
proof (cases "bind_addr_of ra")
  case (Inl e)
  from start_server_bad_addr[OF this, of t tok pp s] assms show ?thesis by simp
next
  case (Inr ba)
  show ?thesis
  proof (cases "primary_binary (env s) \<or> system_binary (env s)")
    case False
    with start_server_no_binary[OF Inr, of s t tok pp] assms show ?thesis by simp
  next
    case True
    show ?thesis
    proof (cases "early_exit (fate (env s) (next_pid s))")
      case None
      from start_server_alive[OF Inr True None, of t tok pp] assms Inr True None
      show ?thesis by simp
    next
      case (Some rc)
      from start_server_exited[OF Inr True Some, of t tok pp] assms show ?thesis by simp
    qed
  qed
qed

lemmas eval_defs = start_server_def start_server_body_def stop_existing_def store_config_def
  register_def check_started_def launch_def open_log_def popen_def write_file_def
  sleep_after_launch_def verify_port_def log_def emit_def init_state_def Let_def
  config_path_of_def log_file_of_def in_config_dir_def config_dir_def
  stop_server_def stop_process_def forget_entries_def remove_config_def del_active_def
  del_config_def start_rollback_def

lemma ex_bind_addr: "bind_addr_of ''0.0.0.0:23333'' = Inr ''0.0.0.0:23333''"
  by (simp add: bind_addr_of_def)

lemma ex_start_ok: "fst (start_server ''t1'' ''0.0.0.0:23333'' ''abc'' 8989 (init_state env_ok)) = Inr True"
  by (simp add: eval_defs ex_bind_addr env_ok_def)

lemma ex_started_active:
  "active_servers (started_t1 env_ok) = [(''t1_log'', LogFile 0), (''t1'', Proc 0)]"
  by (simp add: started_t1_def eval_defs ex_bind_addr env_ok_def)

lemma ex_started_configs:
  "map_of (server_configs (started_t1 env_ok)) ''t1'' \<noteq> None"
  by (simp add: started_t1_def eval_defs ex_bind_addr env_ok_def)

lemma ex_started_returncode:
  "returncode (started_t1 env_ok) 0 = None"
  by (simp add: started_t1_def eval_defs ex_bind_addr env_ok_def)

lemma ex_started_events:
  "events (started_t1 env_ok) =
     [Spawned 0 ''/usr/local/bin/rathole'' ''/app/data/rathole/t1.toml'',
      Log INFO (Started ''t1'' ''0.0.0.0:23333'' 8989)]"
  by (simp add: started_t1_def eval_defs ex_bind_addr env_ok_def)

text \<open>
  The three cases of \<open>is_running\<close>: no entry under the key, an entry that is a process
  (the answer is the process table's at the call, not a stored flag), and any entry in
  general, where the result is that of \<open>poll()\<close> on the stored object.
\<close>

lemma is_running_cases:
  "(map_of (active_servers s) t = None \<longrightarrow> is_running t s = Inr False)
   \<and> (\<forall>h. map_of (active_servers s) t = Some h \<longrightarrow>
          is_running t s = map_sum id (\<lambda>rc. rc = None) (poll h s))
   \<and> (\<forall>pid. map_of (active_servers s) t = Some (Proc pid) \<longrightarrow>
          is_running t s = Inr (returncode s pid = None)
          \<and> (\<forall>rc. is_running t (external_exit pid rc s) = Inr False))"
  by (auto simp add: is_running_def external_exit_def split: sum.split)

lemma is_running_cases_example:
  "map_of (active_servers (started_t1 env_ok)) ''t2'' = None
   \<and> is_running ''t2'' (started_t1 env_ok) = Inr False
   \<and> map_of (active_servers (started_t1 env_ok)) ''t1'' = Some (Proc 0)
   \<and> is_running ''t1'' (started_t1 env_ok) = Inr True
   \<and> is_running ''t1'' (external_exit 0 1 (started_t1 env_ok)) = Inr False"
proof -
  have a: "map_of (active_servers (started_t1 env_ok)) ''t2'' = None"
    and b: "map_of (active_servers (started_t1 env_ok)) ''t1'' = Some (Proc 0)"
    by (simp_all add: ex_started_active)
  from is_running_cases[of "started_t1 env_ok" "''t2''"] a
  have 1: "is_running ''t2'' (started_t1 env_ok) = Inr False" by blast
  from is_running_cases[of "started_t1 env_ok" "''t1''"] b
  have 2: "is_running ''t1'' (started_t1 env_ok) = Inr (returncode (started_t1 env_ok) 0 = None)"
    and 3: "is_running ''t1'' (external_exit 0 1 (started_t1 env_ok)) = Inr False"
    by blast+
  from a b 1 2 3 show ?thesis by (simp add: ex_started_returncode)
qed

lemma stop_server_events:
  "events (snd (stop_server t s)) = events s @ stop_events t s"
proof (cases "map_of (active_servers s) t")
  case None
  then show ?thesis
    by (simp add: stop_server_snd remove_config_events stop_events_def unlink_events_def)
next
  case (Some proc)
  then show ?thesis
    by (simp add: stop_server_snd remove_config_events stop_process_events stop_events_def
        unlink_events_def term_events_def close_events_def split: option.split)
qed







lemma ex_cf_events:
  "events (started_t1 env_close_fails) =
     [Spawned 0 ''/usr/local/bin/rathole'' ''/app/data/rathole/t1.toml'',
      Log INFO (Started ''t1'' ''0.0.0.0:23333'' 8989)]"
  by (simp add: started_t1_def eval_defs ex_bind_addr env_ok_def env_close_fails_def)




lemma slept_fields [simp]:
  "env (slept t ra tok pp ba s) = env s"
  "active_servers (slept t ra tok pp ba s) = active_servers (launched t ra tok pp ba s)"
  "server_configs (slept t ra tok pp ba s) = server_configs (launched t ra tok pp ba s)"
  "files (slept t ra tok pp ba s) (config_path_of t) = Some (render_config ba tok t pp)"
  by (simp_all add: slept_def sleep_files_other)

lemma launched_lookup [simp]:
  "map_of (active_servers (launched t ra tok pp ba s)) t = Some (Proc (next_pid s))"
  "map_of (active_servers (launched t ra tok pp ba s)) (t @ ''_log'') =
     Some (LogFile (if primary_binary (env s) then next_fd s else Suc (next_fd s)))"
  "map_of (server_configs (launched t ra tok pp ba s)) t =
     Some \<lparr>cfg_remote_addr = ra, cfg_token = tok, cfg_proxy_port = pp,
           cfg_bind_addr = ba, cfg_config_path = config_path_of t\<rparr>"
  by (simp_all add: AList.update_conv')

lemma launched_returncode:
  "primary_binary (env s) \<or> system_binary (env s) \<Longrightarrow>
   returncode (launched t ra tok pp ba s) =
     (returncode (snd (stop_existing t s)))(next_pid s := None)"
  by (simp add: launched_def launch_returncode pre_launch_def)

lemma slept_returncode:
  "primary_binary (env s) \<or> system_binary (env s) \<Longrightarrow>
   returncode (slept t ra tok pp ba s) =
     (returncode (snd (stop_existing t s)))(next_pid s := early_exit (fate (env s) (next_pid s)))"
  by (simp add: slept_def launched_returncode)

lemma slept_log_file:
  "files (slept t ra tok pp ba s) (log_file_of t) \<noteq> None"
  by (simp add: slept_def sleep_files_log launched_def launch_files_log)


lemma ex_start_eq:
  "fst (start_server ''t1'' ''0.0.0.0:23333'' ''abc'' 8989 (init_state e)) = Inr b \<Longrightarrow>
   start_server ''t1'' ''0.0.0.0:23333'' ''abc'' 8989 (init_state e) = (Inr b, started_t1 e)"
  by (simp add: started_t1_def prod_eq_iff)


lemma ex_config_path: "config_path_of ''t1'' = ''/app/data/rathole/t1.toml''"
  by (simp add: config_path_of_def in_config_dir_def config_dir_def)



lemma start_error_msg_exit_code:
  "\<exists>post. start_error_msg rc lf s = ''rathole server failed to start ('' @ (''exit code: '' @ str_int rc) @ post"
  by (simp add: start_error_msg_def split: option.split sum.split)

lemma start_error_msg_readable:
  "files s lf = Some text \<Longrightarrow> read_fails (env s) lf = None \<Longrightarrow>
   start_error_msg rc lf s = ''rathole server failed to start (exit code: '' @ str_int rc @ ''): '' @ tail500 text"
  by (simp add: start_error_msg_def)

lemma start_error_msg_unreadable:
  "files s lf = Some text \<Longrightarrow> read_fails (env s) lf = Some e \<Longrightarrow>
   start_error_msg rc lf s = ''rathole server failed to start (exit code: '' @ str_int rc
      @ ''), could not read log: '' @ e"
  by (simp add: start_error_msg_def)

text \<open>
  Claim C4, as amended. If the launched process has exited when \<open>start_server\<close> polls
  it after the pause, \<open>start_server\<close> raises a \<open>RuntimeError\<close> whose message contains
  \<open>exit code: <rc>\<close>, followed by the last 500 characters of the log when the log can be
  read (and by the read error otherwise). Afterwards there is no entry for the tunnel or
  its log handle in \<open>active_servers\<close> and none in \<open>server_configs\<close>, and the error has
  been logged. The rendered configuration file stays on the disk: this path attempts no
  removal.
\<close>

theorem start_server_early_exit:
  assumes "bind_addr_of ra = Inr ba"
    and "primary_binary (env s) \<or> system_binary (env s)"
    and "early_exit (fate (env s) (next_pid s)) = Some rc"
  shows "\<exists>msg s'. start_server t ra tok pp s = (Inl (RuntimeError msg), s')
     \<and> (\<exists>pre post. msg = pre @ (''exit code: '' @ str_int rc) @ post)
     \<and> (\<exists>out. files s' (log_file_of t) = Some out
           \<and> (case read_fails (env s) (log_file_of t) of
                None \<Rightarrow> msg = ''rathole server failed to start (exit code: '' @ str_int rc
                               @ ''): '' @ tail500 out
              | Some e \<Rightarrow> msg = ''rathole server failed to start (exit code: '' @ str_int rc
                               @ ''), could not read log: '' @ e))
     \<and> returncode s' (next_pid s) = Some rc
     \<and> map_of (active_servers s') t = None
     \<and> map_of (active_servers s') (t @ ''_log'') = None
     \<and> map_of (server_configs s') t = None
     \<and> files s' (config_path_of t) = Some (render_config ba tok t pp)
     \<and> Log ERROR (Start_failed msg) \<in> set (events s')
     \<and> Log ERROR (Failed_to_start t (RuntimeError msg)) \<in> set (events s')"
proof -
  let ?sl = "slept t ra tok pp ba s"
  let ?msg = "start_error_msg rc (log_file_of t) ?sl"
  let ?s' = "log ERROR (Failed_to_start t (RuntimeError ?msg))
              (start_rollback t (log ERROR (Start_failed ?msg) ?sl))"
  have eq: "start_server t ra tok pp s = (Inl (RuntimeError ?msg), ?s')"
    by (rule start_server_exited[OF assms])
  have 1: "\<exists>pre post. ?msg = pre @ (''exit code: '' @ str_int rc) @ post"
    using start_error_msg_exit_code[of rc "log_file_of t" ?sl] by blast
  obtain out where out: "files ?sl (log_file_of t) = Some out"
    using slept_log_file[of t ra tok pp ba s] by auto
  have 2: "files ?s' (log_file_of t) = Some out
           \<and> (case read_fails (env s) (log_file_of t) of
                None \<Rightarrow> ?msg = ''rathole server failed to start (exit code: '' @ str_int rc
                               @ ''): '' @ tail500 out
              | Some e \<Rightarrow> ?msg = ''rathole server failed to start (exit code: '' @ str_int rc
                               @ ''), could not read log: '' @ e)"
    using out
    by (simp add: start_error_msg_readable start_error_msg_unreadable split: option.split)
  have 3: "returncode ?s' (next_pid s) = Some rc"
    using assms(2,3) by (simp add: slept_returncode)
  have 4: "map_of (active_servers ?s') t = None"
    by (simp add: AList.delete_conv')
  have 5: "map_of (active_servers ?s') (t @ ''_log'') = None"
    by (simp add: AList.delete_conv')
  have 6: "map_of (server_configs ?s') t = None"
    by (simp add: AList.delete_conv')
  have 7: "files ?s' (config_path_of t) = Some (render_config ba tok t pp)"
    by simp
  have 8: "Log ERROR (Start_failed ?msg) \<in> set (events ?s')"
    by (simp add: start_rollback_events)
  have 9: "Log ERROR (Failed_to_start t (RuntimeError ?msg)) \<in> set (events ?s')"
    by simp
  from eq 1 2 3 4 5 6 7 8 9 show ?thesis by blast
qed

lemma term_events_log [simp]: "term_events proc t (log l m s) = term_events proc t s"
  by (simp add: term_events_def split: handle.split option.split)

lemma close_events_log [simp]: "close_events t (log l m s) = close_events t s"
  by (simp add: close_events_def split: handle.split option.split)

lemma unlink_events_log [simp]: "unlink_events t (log l m s) = unlink_events t s"
  by (simp add: unlink_events_def split: option.split)

lemma stop_events_log [simp]: "stop_events t (log l m s) = stop_events t s"
  by (simp add: stop_events_def split: option.split)

lemma stop_existing_events:
  "events (snd (stop_existing t s)) = events s @ existing_events t s"
  by (simp add: stop_existing_def existing_events_def stop_server_events)

lemma launch_binary_pre_launch [simp]:
  "launch_binary (pre_launch t ra tok pp ba s) = launch_binary s"
  by (simp add: launch_binary_def)

lemma launched_events:
  "events (launched t ra tok pp ba s) =
     events s @ existing_events t s
     @ (if primary_binary (env s) \<or> system_binary (env s)
        then [Spawned (next_pid s) (launch_binary s) (config_path_of t)] else [])"
  by (simp add: launched_def launch_events pre_launch_def stop_existing_events launch_binary_def)

lemma slept_events [simp]:
  "events (slept t ra tok pp ba s) = events (launched t ra tok pp ba s)"
  by (simp add: slept_def)

lemma probe_events_slept [simp]:
  "probe_events ba pid (slept t ra tok pp ba' s) = probe_events ba pid s"
  by (simp add: probe_events_def)

lemma start_server_events:
  "events (snd (start_server t ra tok pp s)) = events s @ start_events t ra tok pp s"
proof (cases "bind_addr_of ra")
  case (Inl e)
  then show ?thesis by (simp add: start_server_bad_addr start_events_def)
next
  case (Inr ba)
  show ?thesis
  proof (cases "primary_binary (env s) \<or> system_binary (env s)")
    case False
    then show ?thesis
      using Inr
      by (simp add: start_server_no_binary start_events_def launch_events pre_launch_def
          stop_existing_events launch_binary_def)
  next
    case True
    show ?thesis
    proof (cases "early_exit (fate (env s) (next_pid s))")
      case None
      show ?thesis
        using True
        by (simp add: start_server_alive[OF Inr True None] start_events_def Inr None
            verify_port_events launched_events)
    next
      case (Some rc)
      show ?thesis
        using True
        by (simp add: start_server_exited[OF Inr True Some] start_events_def Inr Some
            start_rollback_events launched_events registered_fd_def AList.delete_conv'
            AList.update_conv')
    qed
  qed
qed

lemma ex_exit1_facts:
  "bind_addr_of ''0.0.0.0:23333'' = Inr ''0.0.0.0:23333''"
  "primary_binary (env (init_state env_exit1)) \<or> system_binary (env (init_state env_exit1))"
  "early_exit (fate (env (init_state env_exit1)) (next_pid (init_state env_exit1))) = Some 1"
  by (simp_all add: ex_bind_addr init_state_def env_exit1_def env_ok_def)

lemma ex_exit1_msg:
  "start_error_msg 1 (log_file_of ''t1'')
     (slept ''t1'' ''0.0.0.0:23333'' ''abc'' 8989 ''0.0.0.0:23333'' (init_state env_exit1))
   = ''rathole server failed to start (exit code: 1): ''
     @ log_preamble ''t1'' ''0.0.0.0:23333'' 8989 ''/app/data/rathole/t1.toml''
         (render_config ''0.0.0.0:23333'' ''abc'' ''t1'' 8989)
     @ ''boom''"
  by (simp add: start_error_msg_def slept_def launched_def pre_launch_def eval_defs env_exit1_def
      env_ok_def tail500_def log_preamble_def render_config_def nl_def dq_def str_int_def
      str_nat.simps digit_char_def)

theorem start_server_early_exit_keeps_config_file:
  "fst (start_server ''t1'' ''0.0.0.0:23333'' ''abc'' 8989 (init_state env_exit1))
     = Inl (RuntimeError (''rathole server failed to start (exit code: 1): ''
              @ log_preamble ''t1'' ''0.0.0.0:23333'' 8989 ''/app/data/rathole/t1.toml''
                  (render_config ''0.0.0.0:23333'' ''abc'' ''t1'' 8989)
              @ ''boom''))
   \<and> \<not> unlink_fails env_exit1 ''/app/data/rathole/t1.toml''
   \<and> files (snd (start_server ''t1'' ''0.0.0.0:23333'' ''abc'' 8989 (init_state env_exit1)))
        ''/app/data/rathole/t1.toml''
       = Some (render_config ''0.0.0.0:23333'' ''abc'' ''t1'' 8989)
   \<and> Unlinked ''/app/data/rathole/t1.toml''
        \<notin> set (events (snd (start_server ''t1'' ''0.0.0.0:23333'' ''abc'' 8989 (init_state env_exit1))))"
proof -
  note ex = start_server_exited[OF ex_exit1_facts, of "''t1''" "''abc''" 8989]
  have 1: "fst (start_server ''t1'' ''0.0.0.0:23333'' ''abc'' 8989 (init_state env_exit1))
     = Inl (RuntimeError (''rathole server failed to start (exit code: 1): ''
              @ log_preamble ''t1'' ''0.0.0.0:23333'' 8989 ''/app/data/rathole/t1.toml''
                  (render_config ''0.0.0.0:23333'' ''abc'' ''t1'' 8989)
              @ ''boom''))"
    by (simp add: ex ex_exit1_msg)
  have 2: "\<not> unlink_fails env_exit1 ''/app/data/rathole/t1.toml''"
    by (simp add: env_exit1_def env_ok_def)
  have 3: "files (snd (start_server ''t1'' ''0.0.0.0:23333'' ''abc'' 8989 (init_state env_exit1)))
        (config_path_of ''t1'') = Some (render_config ''0.0.0.0:23333'' ''abc'' ''t1'' 8989)"
    by (simp add: ex)
  have 4: "Unlinked ''/app/data/rathole/t1.toml''
        \<notin> set (events (snd (start_server ''t1'' ''0.0.0.0:23333'' ''abc'' 8989 (init_state env_exit1))))"
    by (simp add: start_server_events start_events_def ex_bind_addr existing_events_def
        init_state_def env_exit1_def env_ok_def)
  from 1 2 3 4 show ?thesis by (simp add: ex_config_path)
qed

theorem start_server_early_exit_witness:
  "bind_addr_of ''0.0.0.0:23333'' = Inr ''0.0.0.0:23333''
   \<and> early_exit (fate (env (init_state env_exit1)) (next_pid (init_state env_exit1))) = Some 1
   \<and> (\<exists>msg s'. start_server ''t1'' ''0.0.0.0:23333'' ''abc'' 8989 (init_state env_exit1)
                   = (Inl (RuntimeError msg), s')
          \<and> (\<exists>pre post. msg = pre @ ''exit code: 1'' @ post)
          \<and> map_of (active_servers s') ''t1'' = None
          \<and> map_of (active_servers s') ''t1_log'' = None
          \<and> map_of (server_configs s') ''t1'' = None
          \<and> files s' ''/app/data/rathole/t1.toml'' \<noteq> None)"
proof -
  have si: "str_int 1 = ''1''"
    by (simp add: str_int_def str_nat.simps digit_char_def)
  from start_server_early_exit[OF ex_exit1_facts, of "''t1''" "''abc''" 8989]
  obtain msg s' where
    "start_server ''t1'' ''0.0.0.0:23333'' ''abc'' 8989 (init_state env_exit1)
       = (Inl (RuntimeError msg), s')"
    "\<exists>pre post. msg = pre @ (''exit code: '' @ str_int 1) @ post"
    "map_of (active_servers s') ''t1'' = None"
    "map_of (active_servers s') (''t1'' @ ''_log'') = None"
    "map_of (server_configs s') ''t1'' = None"
    "files s' (config_path_of ''t1'') = Some (render_config ''0.0.0.0:23333'' ''abc'' ''t1'' 8989)"
    by blast
  then show ?thesis
    using ex_exit1_facts(1,3) by (simp add: si ex_config_path)
qed











text \<open>
  Claim C3, evaluated on the code. Tunnel \<open>t1\<close> is started successfully and its child
  is then killed from outside. \<open>get_active_servers\<close> does not return a list without
  \<open>t1\<close>: it raises \<open>AttributeError\<close> at the entry \<open>t1_log\<close>, whose value is the log file
  object, before it reaches \<open>t1\<close>, and the dead record stays in the dictionary. It
  raises in the same way while the child is alive. (On a dictionary that holds only
  processes the function does what the claim says: see
  \<open>get_active_servers_processes_only\<close>.)
\<close>

theorem get_active_servers_raises_after_start:
  "start_server ''t1'' ''0.0.0.0:23333'' ''abc'' 8989 (init_state env_ok) = (Inr True, started_t1 env_ok)
   \<and> returncode (external_exit 0 1 (started_t1 env_ok)) 0 = Some 1
   \<and> fst (get_active_servers (external_exit 0 1 (started_t1 env_ok))) = Inl AttributeError
   \<and> active_servers (snd (get_active_servers (external_exit 0 1 (started_t1 env_ok))))
       = [(''t1_log'', LogFile 0), (''t1'', Proc 0)]
   \<and> fst (get_active_servers (started_t1 env_ok)) = Inl AttributeError"
proof -
  have st: "start_server ''t1'' ''0.0.0.0:23333'' ''abc'' 8989 (init_state env_ok)
              = (Inr True, started_t1 env_ok)"
    by (rule ex_start_eq[OF ex_start_ok])
  have a: "active_servers (external_exit 0 1 (started_t1 env_ok))
             = [(''t1_log'', LogFile 0), (''t1'', Proc 0)]"
    by (simp add: external_exit_def ex_started_active)
  show ?thesis
    by (simp add: st get_active_servers_def a ex_started_active external_exit_def)
qed

lemma prune_fields [simp]:
  "returncode (prune k s) = returncode s"
  "active_servers (prune k s) = AList.delete k (active_servers s)"
  by (simp_all add: prune_def)

lemma loop_alive:
  "returncode s pid = None \<Longrightarrow>
   get_active_servers_loop ((k, Proc pid) # items) acc s
     = get_active_servers_loop items (acc @ [k]) s"
  by simp

lemma loop_dead:
  "returncode s pid = Some rc \<Longrightarrow>
   get_active_servers_loop ((k, Proc pid) # items) acc s
     = get_active_servers_loop items acc (prune k s)"
  by (simp add: Let_def prune_def)

lemma alive_cong: "returncode s' = returncode s \<Longrightarrow> alive s' = alive s"
  by (auto simp add: alive_def fun_eq_iff split: handle.split)

lemma all_processes_Cons:
  "all_processes (item # items) \<longleftrightarrow> (\<exists>k pid. item = (k, Proc pid)) \<and> all_processes items"
  by (cases item; cases "snd item") (auto simp add: all_processes_def)

lemma get_active_servers_loop_processes:
  "all_processes items \<Longrightarrow>
   fst (get_active_servers_loop items acc s) = Inr (acc @ map fst (filter (alive s) items))"
proof (induction items arbitrary: acc s)
  case Nil
  then show ?case by simp
next
  case (Cons item items)
  from Cons.prems obtain k pid where item: "item = (k, Proc pid)" and rest: "all_processes items"
    by (auto simp add: all_processes_Cons)
  show ?case
  proof (cases "returncode s pid")
    case None
    have "alive s (k, Proc pid)" using None by (simp add: alive_def)
    then show ?thesis
      unfolding item loop_alive[OF None] Cons.IH[OF rest] by simp
  next
    case (Some rc)
    have na: "\<not> alive s (k, Proc pid)" using Some by (simp add: alive_def)
    have "alive (prune k s) = alive s" by (rule alive_cong) simp
    then show ?thesis
      unfolding item loop_dead[OF Some] Cons.IH[OF rest] using na by simp
  qed
qed

lemma get_active_servers_loop_keeps_absent:
  "all_processes items \<Longrightarrow> map_of (active_servers s) k = None \<Longrightarrow>
   map_of (active_servers (snd (get_active_servers_loop items acc s))) k = None"
proof (induction items arbitrary: acc s)
  case Nil
  then show ?case by simp
next
  case (Cons item items)
  from Cons.prems(1) obtain k' pid where item: "item = (k', Proc pid)" and rest: "all_processes items"
    by (auto simp add: all_processes_Cons)
  show ?case
  proof (cases "returncode s pid")
    case None
    show ?thesis
      unfolding item loop_alive[OF None] by (rule Cons.IH[OF rest Cons.prems(2)])
  next
    case (Some rc)
    have "map_of (active_servers (prune k' s)) k = None"
      using Cons.prems(2) by (simp add: AList.delete_conv')
    then show ?thesis
      unfolding item loop_dead[OF Some] by (rule Cons.IH[OF rest])
  qed
qed

lemma get_active_servers_loop_prunes:
  "all_processes items \<Longrightarrow> (k, Proc pid) \<in> set items \<Longrightarrow> returncode s pid \<noteq> None \<Longrightarrow>
   map_of (active_servers (snd (get_active_servers_loop items acc s))) k = None"
proof (induction items arbitrary: acc s)
  case Nil
  then show ?case by simp
next
  case (Cons item items)
  from Cons.prems(1) obtain k' pid' where item: "item = (k', Proc pid')"
    and rest: "all_processes items"
    by (auto simp add: all_processes_Cons)
  show ?case
  proof (cases "k' = k \<and> pid' = pid")
    case True
    obtain rc where rc: "returncode s pid' = Some rc" using Cons.prems(3) True by auto
    have "map_of (active_servers (prune k' s)) k = None"
      using True by (simp add: AList.delete_conv')
    then show ?thesis
      unfolding item loop_dead[OF rc] by (rule get_active_servers_loop_keeps_absent[OF rest])
  next
    case False
    with Cons.prems(2) item have mem: "(k, Proc pid) \<in> set items" by auto
    show ?thesis
    proof (cases "returncode s pid'")
      case None
      show ?thesis
        unfolding item loop_alive[OF None] by (rule Cons.IH[OF rest mem Cons.prems(3)])
    next
      case (Some rc)
      have "returncode (prune k' s) pid \<noteq> None" using Cons.prems(3) by simp
      then show ?thesis
        unfolding item loop_dead[OF Some] by (rule Cons.IH[OF rest mem])
    qed
  qed
qed

lemma get_active_servers_processes_only:
  assumes "all_processes (active_servers s)"
  shows "fst (get_active_servers s) = Inr (map fst (filter (alive s) (active_servers s)))"
    and "(k, Proc pid) \<in> set (active_servers s) \<Longrightarrow> returncode s pid \<noteq> None \<Longrightarrow>
         map_of (active_servers (snd (get_active_servers s))) k = None"
proof -
  show "fst (get_active_servers s) = Inr (map fst (filter (alive s) (active_servers s)))"
    unfolding get_active_servers_def
    using get_active_servers_loop_processes[OF assms, of "[]" s] by simp
  show "(k, Proc pid) \<in> set (active_servers s) \<Longrightarrow> returncode s pid \<noteq> None \<Longrightarrow>
         map_of (active_servers (snd (get_active_servers s))) k = None"
    unfolding get_active_servers_def
    by (rule get_active_servers_loop_prunes[OF assms])
qed

lemma start_server_returncode:
  assumes "bind_addr_of ra = Inr ba"
  shows "returncode (snd (start_server t ra tok pp s)) =
     (if primary_binary (env s) \<or> system_binary (env s)
      then (returncode (snd (stop_existing t s)))(next_pid s := early_exit (fate (env s) (next_pid s)))
      else returncode (snd (stop_existing t s)))"
proof (cases "primary_binary (env s) \<or> system_binary (env s)")
  case False
  then show ?thesis
    by (simp add: start_server_no_binary[OF assms] launch_returncode pre_launch_def)
next
  case True
  show ?thesis
  proof (cases "early_exit (fate (env s) (next_pid s))")
    case None
    show ?thesis using True
      by (simp add: start_server_alive[OF assms True None] slept_returncode)
  next
    case (Some rc)
    show ?thesis using True
      by (simp add: start_server_exited[OF assms True Some] slept_returncode)
  qed
qed

lemma start_server_next_pid:
  assumes "start_server t ra tok pp s = (Inr b, s1)"
  shows "next_pid s1 = Suc (next_pid s)"
proof -
  from start_server_InrD[OF assms] obtain ba where
    s1: "s1 = log INFO (Started t ba pp) (verify_port ba (next_pid s) (slept t ra tok pp ba s))"
    and bin: "primary_binary (env s) \<or> system_binary (env s)"
    by blast
  show ?thesis using bin
    by (simp add: s1 slept_def launched_def launch_next_pid)
qed

lemma start_server_kills_existing:
  assumes "map_of (active_servers s) t = Some (Proc p)" and "bind_addr_of ra = Inr ba"
    and "p < next_pid s"
  shows "returncode (snd (start_server t ra tok pp s)) p \<noteq> None"
proof -
  have "returncode (snd (stop_existing t s)) p \<noteq> None"
    using assms(1) by (simp add: stop_existing_returncode)
  then show ?thesis
    using assms(3) by (simp add: start_server_returncode[OF assms(2)])
qed

lemma not_spawn_stop_parts:
  "\<forall>e \<in> set (term_events h t s). \<not> is_spawn e \<and> e \<noteq> Log INFO (Stopped t)"
  "\<forall>e \<in> set (close_events t s). \<not> is_spawn e \<and> e \<noteq> Log INFO (Stopped t)"
  "\<forall>e \<in> set (unlink_events t s). \<not> is_spawn e \<and> e \<noteq> Log INFO (Stopped t)"
  "\<forall>e \<in> set (probe_events ba pid s). \<not> is_spawn e \<and> e \<noteq> Log INFO (Stopped t)"
  by (auto simp add: term_events_def close_events_def unlink_events_def probe_events_def
      is_spawn_def split: handle.splits option.splits if_splits probe_result.splits)

lemma start_events_valid:
  "bind_addr_of ra = Inr ba \<Longrightarrow>
   start_events t ra tok pp s = existing_events t s @ launch_events_of t ra tok pp ba s"
  by (simp add: start_events_def launch_events_of_def)

lemma launch_events_of_props:
  "Log INFO (Stopped t) \<notin> set (launch_events_of t ra tok pp ba s)"
  "length (filter is_spawn (launch_events_of t ra tok pp ba s)) \<le> 1"
  using not_spawn_stop_parts(4)[of ba "next_pid s" s t]
  by (auto simp add: launch_events_of_def is_spawn_def filter_empty_conv split: option.split)

lemma start_server_stops_once:
  assumes "map_of (active_servers s) t = Some h" and "bind_addr_of ra = Inr ba"
  shows "\<exists>pre post. drop (length (events s)) (events (snd (start_server t ra tok pp s)))
                       = pre @ Log INFO (Stopped t) # post
           \<and> (\<forall>e \<in> set pre. \<not> is_spawn e)
           \<and> Log INFO (Stopped t) \<notin> set pre
           \<and> Log INFO (Stopped t) \<notin> set post
           \<and> length (filter is_spawn post) \<le> 1"
proof -
  let ?pre = "Log WARNING (Already_exists t) # term_events h t s @ close_events t s"
  let ?post = "unlink_events t s @ launch_events_of t ra tok pp ba s"
  have ev: "drop (length (events s)) (events (snd (start_server t ra tok pp s)))
              = ?pre @ Log INFO (Stopped t) # ?post"
    using assms(1)
    by (simp add: start_server_events start_events_valid[OF assms(2)] existing_events_def
        stop_events_def)
  have p1: "\<forall>e \<in> set ?pre. \<not> is_spawn e"
    using not_spawn_stop_parts(1)[of h t s] not_spawn_stop_parts(2)[of t s]
    by (auto simp add: is_spawn_def)
  have p2: "Log INFO (Stopped t) \<notin> set ?pre"
    using not_spawn_stop_parts(1)[of h t s] not_spawn_stop_parts(2)[of t s] by auto
  have p3: "Log INFO (Stopped t) \<notin> set ?post"
    using not_spawn_stop_parts(3)[of t s] launch_events_of_props(1)[of t ra tok pp ba s] by auto
  have "filter is_spawn (unlink_events t s) = []"
    using not_spawn_stop_parts(3)[of t s] by (simp add: filter_empty_conv)
  then have p4: "length (filter is_spawn ?post) \<le> 1"
    using launch_events_of_props(2)[of t ra tok pp ba s] by simp
  from ev p1 p2 p3 p4 show ?thesis by blast
qed

text \<open>
  Two consecutive calls. A successful \<open>start_server\<close> leaves the new process
  registered under the tunnel id, alive. A second \<open>start_server\<close> for the same id made
  in the state the first one returned performs exactly one stop of the record (one
  \<open>Stopped\<close> record in its trace) and launches no process before it and at most one
  after it; when it returns, whatever its result, the process of the first call has
  exited. This is what the stop-before-start of lines 41 to 44 achieves; it says nothing of
  calls for other ids in between.
\<close>

lemma start_server_twice:
  assumes "start_server t ra tok pp s = (Inr b, s1)"
  shows "map_of (active_servers s1) t = Some (Proc (next_pid s))
    \<and> returncode s1 (next_pid s) = None
    \<and> (\<forall>ra' tok' pp' ba'. bind_addr_of ra' = Inr ba' \<longrightarrow>
          returncode (snd (start_server t ra' tok' pp' s1)) (next_pid s) \<noteq> None
          \<and> (\<exists>pre post.
                drop (length (events s1)) (events (snd (start_server t ra' tok' pp' s1)))
                  = pre @ Log INFO (Stopped t) # post
                \<and> (\<forall>e \<in> set pre. \<not> is_spawn e)
                \<and> Log INFO (Stopped t) \<notin> set pre
                \<and> Log INFO (Stopped t) \<notin> set post
                \<and> length (filter is_spawn post) \<le> 1)
          \<and> (\<forall>b2 s2. start_server t ra' tok' pp' s1 = (Inr b2, s2) \<longrightarrow>
                map_of (active_servers s2) t = Some (Proc (Suc (next_pid s)))
                \<and> returncode s2 (Suc (next_pid s)) = None
                \<and> returncode s2 (next_pid s) \<noteq> None))
    \<and> (\<forall>ra' tok' pp' e. bind_addr_of ra' = Inl e \<longrightarrow>
          start_server t ra' tok' pp' s1 = (Inl e, log ERROR (Failed_to_start t e) s1))"
proof -
  from start_server_InrD[OF assms] obtain ba where
    s1: "s1 = log INFO (Started t ba pp) (verify_port ba (next_pid s) (slept t ra tok pp ba s))"
    and bin: "primary_binary (env s) \<or> system_binary (env s)"
    and alive: "early_exit (fate (env s) (next_pid s)) = None"
    by blast
  have np: "next_pid s1 = Suc (next_pid s)" by (rule start_server_next_pid[OF assms])
  have act: "map_of (active_servers s1) t = Some (Proc (next_pid s))"
    by (simp add: s1 AList.update_conv')
  have rc: "returncode s1 (next_pid s) = None"
    using bin alive by (simp add: s1 slept_returncode)
  have second: "returncode (snd (start_server t ra' tok' pp' s1)) (next_pid s) \<noteq> None
          \<and> (\<exists>pre post.
                drop (length (events s1)) (events (snd (start_server t ra' tok' pp' s1)))
                  = pre @ Log INFO (Stopped t) # post
                \<and> (\<forall>e \<in> set pre. \<not> is_spawn e)
                \<and> Log INFO (Stopped t) \<notin> set pre
                \<and> Log INFO (Stopped t) \<notin> set post
                \<and> length (filter is_spawn post) \<le> 1)
          \<and> (\<forall>b2 s2. start_server t ra' tok' pp' s1 = (Inr b2, s2) \<longrightarrow>
                map_of (active_servers s2) t = Some (Proc (Suc (next_pid s)))
                \<and> returncode s2 (Suc (next_pid s)) = None
                \<and> returncode s2 (next_pid s) \<noteq> None)"
    if ba': "bind_addr_of ra' = Inr ba'" for ra' tok' pp' ba'
  proof -
    have lt: "next_pid s < next_pid s1" by (simp add: np)
    have dead: "returncode (snd (start_server t ra' tok' pp' s1)) (next_pid s) \<noteq> None"
      by (rule start_server_kills_existing[OF act ba' lt])
    have once: "\<exists>pre post.
                drop (length (events s1)) (events (snd (start_server t ra' tok' pp' s1)))
                  = pre @ Log INFO (Stopped t) # post
                \<and> (\<forall>e \<in> set pre. \<not> is_spawn e)
                \<and> Log INFO (Stopped t) \<notin> set pre
                \<and> Log INFO (Stopped t) \<notin> set post
                \<and> length (filter is_spawn post) \<le> 1"
      by (rule start_server_stops_once[OF act ba'])
    have succ: "map_of (active_servers s2) t = Some (Proc (Suc (next_pid s)))
                \<and> returncode s2 (Suc (next_pid s)) = None
                \<and> returncode s2 (next_pid s) \<noteq> None"
      if ok: "start_server t ra' tok' pp' s1 = (Inr b2, s2)" for b2 s2
    proof -
      from start_server_InrD[OF ok] obtain ba2 where
        s2: "s2 = log INFO (Started t ba2 pp')
                    (verify_port ba2 (next_pid s1) (slept t ra' tok' pp' ba2 s1))"
        and bin2: "primary_binary (env s1) \<or> system_binary (env s1)"
        and alive2: "early_exit (fate (env s1) (next_pid s1)) = None"
        by blast
      have a: "map_of (active_servers s2) t = Some (Proc (Suc (next_pid s)))"
        by (simp add: s2 np AList.update_conv')
      have b: "returncode s2 (Suc (next_pid s)) = None"
        using bin2 alive2 by (simp add: s2 slept_returncode np[symmetric])
      have c: "returncode s2 (next_pid s) \<noteq> None"
        using dead ok by simp
      from a b c show ?thesis by simp
    qed
    from dead once succ show ?thesis by blast
  qed
  have bad: "start_server t ra' tok' pp' s1 = (Inl e, log ERROR (Failed_to_start t e) s1)"
    if "bind_addr_of ra' = Inl e" for ra' tok' pp' e
    by (rule start_server_bad_addr[OF that])
  from act rc second bad show ?thesis by blast
qed

lemma ex_started_fields:
  "env (started_t1 env_ok) = env_ok"
  "next_pid (started_t1 env_ok) = 1"
  "next_fd (started_t1 env_ok) = 1"
  "map_of (server_configs (started_t1 env_ok)) ''t1'' =
     Some \<lparr>cfg_remote_addr = ''0.0.0.0:23333'', cfg_token = ''abc'', cfg_proxy_port = 8989,
           cfg_bind_addr = ''0.0.0.0:23333'', cfg_config_path = ''/app/data/rathole/t1.toml''\<rparr>"
  "files (started_t1 env_ok) ''/app/data/rathole/t1.toml'' =
     Some (render_config ''0.0.0.0:23333'' ''abc'' ''t1'' 8989)"
  by (simp_all add: started_t1_def eval_defs ex_bind_addr env_ok_def)

lemma env_ok_simps:
  "primary_binary env_ok" "probe env_ok ba = Listening"
  "early_exit (fate env_ok pid) = None" "term_exit (fate env_ok pid) = Some (- 15)"
  "\<not> close_fails env_ok fd" "\<not> unlink_fails env_ok path" "read_fails env_ok path = None"
  by (simp_all add: env_ok_def)

lemma ex_second_existing_events:
  "existing_events ''t1'' (started_t1 env_ok) =
     [Log WARNING (Already_exists ''t1''), Sigterm 0, Closed 0, Log INFO (Stopped ''t1''),
      Unlinked ''/app/data/rathole/t1.toml'']"
  by (simp add: existing_events_def stop_events_def term_events_def
      close_events_def unlink_events_def
      ex_started_active ex_started_returncode ex_started_fields env_ok_simps)

lemma ex_second_probe_events:
  "probe_events ba pid (started_t1 env_ok) = []"
  by (simp add: probe_events_def ex_started_fields env_ok_simps)

lemma ex_second_start_events:
  "start_events ''t1'' ''0.0.0.0:23333'' ''abc'' 8989 (started_t1 env_ok) =
     [Log WARNING (Already_exists ''t1''), Sigterm 0, Closed 0, Log INFO (Stopped ''t1''),
      Unlinked ''/app/data/rathole/t1.toml'',
      Spawned 1 ''/usr/local/bin/rathole'' ''/app/data/rathole/t1.toml'',
      Log INFO (Started ''t1'' ''0.0.0.0:23333'' 8989)]"
proof -
  have e: "early_exit (fate (env (started_t1 env_ok)) 1) = None"
    and p: "primary_binary (env (started_t1 env_ok))"
    by (simp_all add: ex_started_fields env_ok_simps)
  show ?thesis
    using e p
    by (simp add: start_events_def ex_bind_addr ex_second_existing_events
        ex_second_probe_events launch_binary_def ex_started_fields(2) ex_config_path)
qed

lemma start_server_twice_example:
  "start_server ''t1'' ''0.0.0.0:23333'' ''abc'' 8989 (init_state env_ok) = (Inr True, started_t1 env_ok)
   \<and> bind_addr_of ''0.0.0.0:23333'' = Inr ''0.0.0.0:23333''
   \<and> map_of (active_servers (started_t1 env_ok)) ''t1'' = Some (Proc 0)
   \<and> returncode (started_t1 env_ok) 0 = None
   \<and> returncode (snd (start_server ''t1'' ''0.0.0.0:23333'' ''abc'' 8989 (started_t1 env_ok))) 0 \<noteq> None
   \<and> drop (length (events (started_t1 env_ok)))
        (events (snd (start_server ''t1'' ''0.0.0.0:23333'' ''abc'' 8989 (started_t1 env_ok))))
      = [Log WARNING (Already_exists ''t1''), Sigterm 0, Closed 0, Log INFO (Stopped ''t1''),
         Unlinked ''/app/data/rathole/t1.toml'',
         Spawned 1 ''/usr/local/bin/rathole'' ''/app/data/rathole/t1.toml'',
         Log INFO (Started ''t1'' ''0.0.0.0:23333'' 8989)]"
proof -
  have st: "start_server ''t1'' ''0.0.0.0:23333'' ''abc'' 8989 (init_state env_ok)
              = (Inr True, started_t1 env_ok)"
    by (rule ex_start_eq[OF ex_start_ok])
  have n0: "next_pid (init_state env_ok) = 0" by (simp add: init_state_def)
  from start_server_twice[OF st] have
    a: "map_of (active_servers (started_t1 env_ok)) ''t1'' = Some (Proc (next_pid (init_state env_ok)))"
    and b: "returncode (started_t1 env_ok) (next_pid (init_state env_ok)) = None"
    and c: "\<forall>ra' tok' pp' ba'. bind_addr_of ra' = Inr ba' \<longrightarrow>
          returncode (snd (start_server ''t1'' ra' tok' pp' (started_t1 env_ok)))
            (next_pid (init_state env_ok)) \<noteq> None"
    by blast+
  from c ex_bind_addr have
    d: "returncode (snd (start_server ''t1'' ''0.0.0.0:23333'' ''abc'' 8989 (started_t1 env_ok)))
          (next_pid (init_state env_ok)) \<noteq> None"
    by blast
  have e: "drop (length (events (started_t1 env_ok)))
        (events (snd (start_server ''t1'' ''0.0.0.0:23333'' ''abc'' 8989 (started_t1 env_ok))))
      = start_events ''t1'' ''0.0.0.0:23333'' ''abc'' 8989 (started_t1 env_ok)"
    by (simp add: start_server_events)
  from st a b d e show ?thesis
    by (simp add: n0 ex_bind_addr ex_second_start_events)
qed

section \<open>Properties of the reset of the rathole core\<close>

lemma extendsI: "events s' = events s @ es \<Longrightarrow> extends s s'"
  by (simp add: extends_def events_since_def)

lemma extends_refl [simp]: "extends s s"
  by (simp add: extends_def events_since_def)




lemma extends_log [simp]: "extends s (log l m s)"
  by (rule extendsI) simp

lemma events_since_log [simp]: "events_since s (log l m s) = [Log l m]"
  by (simp add: events_since_def)

lemma extends_emit [simp]: "extends s (emit e s)"
  by (rule extendsI) simp

lemma events_since_emit [simp]: "events_since s (emit e s) = [e]"
  by (simp add: events_since_def)








lemma push_marker_mono:
  "push_marker node tid es \<Longrightarrow> push_marker node tid (pre @ es @ post)"
  by (auto simp add: push_marker_def)

































lemma ex_bind_addr3: "bind_addr_of ''0.0.0.0:23334'' = Inr ''0.0.0.0:23334''"
  by (simp add: bind_addr_of_def)

lemma collide_a_fields:
  "fst (start_server ''t1_log'' ''0.0.0.0:23333'' ''abc'' 8989 (init_state env_ok)) = Inr True"
  "active_servers collide_a = [(''t1_log_log'', LogFile 0), (''t1_log'', Proc 0)]"
  "env collide_a = env_ok" "next_pid collide_a = 1" "next_fd collide_a = 1"
  "returncode collide_a 0 = None"
  "events collide_a =
     [Spawned 0 ''/usr/local/bin/rathole'' ''/app/data/rathole/t1_log.toml'',
      Log INFO (Started ''t1_log'' ''0.0.0.0:23333'' 8989)]"
  by (simp_all add: collide_a_def eval_defs ex_bind_addr env_ok_def)

lemma launch_next_fd:
  "next_fd (snd (launch t ba pp cp config lf s)) =
     (if primary_binary (env s) then Suc (next_fd s) else Suc (Suc (next_fd s)))"
  by (simp add: launch_def open_log_def write_file_def popen_def Let_def)

lemma start_server_primary_alive:
  assumes "bind_addr_of ra = Inr ba" and "primary_binary (env s)"
    and "early_exit (fate (env s) (next_pid s)) = None"
  shows "fst (start_server t ra tok pp s) = Inr True"
    and "env (snd (start_server t ra tok pp s)) = env s"
    and "next_pid (snd (start_server t ra tok pp s)) = Suc (next_pid s)"
    and "next_fd (snd (start_server t ra tok pp s)) = Suc (next_fd s)"
    and "active_servers (snd (start_server t ra tok pp s)) =
           AList.update t (Proc (next_pid s))
             (AList.update (t @ ''_log'') (LogFile (next_fd s))
                (active_servers (snd (stop_existing t s))))"
    and "returncode (snd (start_server t ra tok pp s)) =
           (returncode (snd (stop_existing t s)))(next_pid s := None)"
    and "events (snd (start_server t ra tok pp s)) =
           events s @ existing_events t s
           @ Spawned (next_pid s) ''/usr/local/bin/rathole'' (config_path_of t)
             # probe_events ba (next_pid s) s @ [Log INFO (Started t ba pp)]"
proof -
  have bin: "primary_binary (env s) \<or> system_binary (env s)" using assms(2) by simp
  note al = start_server_alive[OF assms(1) bin assms(3), of t tok pp]
  show "fst (start_server t ra tok pp s) = Inr True" by (simp add: al)
  show "env (snd (start_server t ra tok pp s)) = env s" by (simp add: al)
  show "next_pid (snd (start_server t ra tok pp s)) = Suc (next_pid s)"
    using assms(2) by (simp add: al slept_def launched_def launch_next_pid)
  show "next_fd (snd (start_server t ra tok pp s)) = Suc (next_fd s)"
    using assms(2) by (simp add: al slept_def launched_def launch_next_fd)
  show "active_servers (snd (start_server t ra tok pp s)) =
           AList.update t (Proc (next_pid s))
             (AList.update (t @ ''_log'') (LogFile (next_fd s))
                (active_servers (snd (stop_existing t s))))"
    using assms(2) by (simp add: al)
  show "returncode (snd (start_server t ra tok pp s)) =
           (returncode (snd (stop_existing t s)))(next_pid s := None)"
    using assms(2,3) by (simp add: start_server_returncode[OF assms(1)])
  show "events (snd (start_server t ra tok pp s)) =
           events s @ existing_events t s
           @ Spawned (next_pid s) ''/usr/local/bin/rathole'' (config_path_of t)
             # probe_events ba (next_pid s) s @ [Log INFO (Started t ba pp)]"
    using assms(2,3)
    by (simp add: start_server_events start_events_def assms(1) launch_binary_def)
qed

lemma collide_b_fields:
  "fst (start_server ''t1'' ''0.0.0.0:23334'' ''abc'' 8990 collide_a) = Inr True"
  "active_servers collide_b =
     [(''t1_log_log'', LogFile 0), (''t1_log'', LogFile 1), (''t1'', Proc 1)]"
  "env collide_b = env_ok" "next_pid collide_b = 2" "next_fd collide_b = 2"
  "returncode collide_b 0 = None"
  "events collide_b = events collide_a
     @ [Spawned 1 ''/usr/local/bin/rathole'' ''/app/data/rathole/t1.toml'',
        Log INFO (Started ''t1'' ''0.0.0.0:23334'' 8990)]"
proof -
  have h: "primary_binary (env collide_a)"
    "early_exit (fate (env collide_a) (next_pid collide_a)) = None"
    by (simp_all add: collide_a_fields env_ok_simps)
  note f = start_server_primary_alive[OF ex_bind_addr3 h, of "''t1''" "''abc''" 8990]
  have ne: "map_of (active_servers collide_a) ''t1'' = None"
    by (simp add: collide_a_fields)
  have se: "snd (stop_existing ''t1'' collide_a) = collide_a"
    using ne by (simp add: stop_existing_def)
  show "fst (start_server ''t1'' ''0.0.0.0:23334'' ''abc'' 8990 collide_a) = Inr True"
    by (rule f(1))
  show "active_servers collide_b =
     [(''t1_log_log'', LogFile 0), (''t1_log'', LogFile 1), (''t1'', Proc 1)]"
    by (simp add: collide_b_def f(5) se collide_a_fields)
  show "env collide_b = env_ok" by (simp add: collide_b_def f(2) collide_a_fields)
  show "next_pid collide_b = 2" by (simp add: collide_b_def f(3) collide_a_fields)
  show "next_fd collide_b = 2" by (simp add: collide_b_def f(4) collide_a_fields)
  show "returncode collide_b 0 = None"
    by (simp add: collide_b_def f(6) se collide_a_fields)
  show "events collide_b = events collide_a
     @ [Spawned 1 ''/usr/local/bin/rathole'' ''/app/data/rathole/t1.toml'',
        Log INFO (Started ''t1'' ''0.0.0.0:23334'' 8990)]"
    using ne
    by (simp add: collide_b_def f(7) existing_events_def collide_a_fields(3,4)
        probe_events_def env_ok_simps config_path_of_def in_config_dir_def config_dir_def)
qed

lemma unlink_events_no_signal:
  "Sigterm p \<notin> set (unlink_events t s)" "Sigkill p \<notin> set (unlink_events t s)"
  by (simp_all add: unlink_events_def split: option.split)

lemma collide_c_fields:
  "fst (start_server ''t1_log'' ''0.0.0.0:23333'' ''abc'' 8989 collide_b) = Inr True"
  "active_servers collide_c =
     [(''t1'', Proc 1), (''t1_log_log'', LogFile 2), (''t1_log'', Proc 2)]"
  "returncode collide_c 0 = None" "returncode collide_c 2 = None"
  "events collide_c = events collide_b
     @ [Log WARNING (Already_exists ''t1_log''),
        Log WARNING (Error_stopping ''t1_log'' AttributeError), Closed 0,
        Log INFO (Stopped ''t1_log'')]
     @ unlink_events ''t1_log'' collide_b
     @ [Spawned 2 ''/usr/local/bin/rathole'' ''/app/data/rathole/t1_log.toml'',
        Log INFO (Started ''t1_log'' ''0.0.0.0:23333'' 8989)]"
proof -
  have h: "primary_binary (env collide_b)"
    "early_exit (fate (env collide_b) (next_pid collide_b)) = None"
    by (simp_all add: collide_b_fields env_ok_simps)
  note f = start_server_primary_alive[OF ex_bind_addr h, of "''t1_log''" "''abc''" 8989]
  have ex: "map_of (active_servers collide_b) ''t1_log'' = Some (LogFile 1)"
    by (simp add: collide_b_fields)
  have act: "active_servers (snd (stop_existing ''t1_log'' collide_b)) = [(''t1'', Proc 1)]"
    by (simp add: stop_existing_active collide_b_fields)
  have rc: "returncode (snd (stop_existing ''t1_log'' collide_b)) = returncode collide_b"
    using ex by (simp add: stop_existing_returncode)
  show "fst (start_server ''t1_log'' ''0.0.0.0:23333'' ''abc'' 8989 collide_b) = Inr True"
    by (rule f(1))
  show "active_servers collide_c =
     [(''t1'', Proc 1), (''t1_log_log'', LogFile 2), (''t1_log'', Proc 2)]"
    by (simp add: collide_c_def f(5) act collide_b_fields)
  show "returncode collide_c 0 = None"
    by (simp add: collide_c_def f(6) rc collide_b_fields)
  show "returncode collide_c 2 = None"
    by (simp add: collide_c_def f(6) rc collide_b_fields)
  have ee: "existing_events ''t1_log'' collide_b =
      [Log WARNING (Already_exists ''t1_log''),
       Log WARNING (Error_stopping ''t1_log'' AttributeError), Closed 0,
       Log INFO (Stopped ''t1_log'')] @ unlink_events ''t1_log'' collide_b"
    using ex
    by (simp add: existing_events_def stop_events_def term_events_def close_events_def
        collide_b_fields env_ok_simps)
  show "events collide_c = events collide_b
     @ [Log WARNING (Already_exists ''t1_log''),
        Log WARNING (Error_stopping ''t1_log'' AttributeError), Closed 0,
        Log INFO (Stopped ''t1_log'')]
     @ unlink_events ''t1_log'' collide_b
     @ [Spawned 2 ''/usr/local/bin/rathole'' ''/app/data/rathole/t1_log.toml'',
        Log INFO (Started ''t1_log'' ''0.0.0.0:23333'' 8989)]"
    by (simp add: collide_c_def f(7) ee collide_b_fields(3,4)
        probe_events_def env_ok_simps config_path_of_def in_config_dir_def config_dir_def)
qed

text \<open>
  Claim C1, evaluated on the code. On a fresh manager, in an environment where every
  child stays alive, tunnel \<open>t1_log\<close> is started (process 0), then tunnel \<open>t1\<close>, then
  tunnel \<open>t1_log\<close> again; all three calls succeed. The second call stores the log file
  object of \<open>t1\<close> under the key \<open>t1_log\<close> (line 98) and so overwrites the record of
  process 0 without stopping it. The third call finds that file object as the existing
  record, and its one stop acts on the file object, not on process 0. At the end processes
  0 and 2, both launched for tunnel \<open>t1_log\<close> with the same configuration file and
  ports, are alive, and process 0 was never sent a signal: two live processes for one
  tunnel id.
\<close>

theorem start_server_key_collision_two_live:
  "fst (start_server ''t1_log'' ''0.0.0.0:23333'' ''abc'' 8989 (init_state env_ok)) = Inr True
   \<and> fst (start_server ''t1'' ''0.0.0.0:23334'' ''abc'' 8990 collide_a) = Inr True
   \<and> fst (start_server ''t1_log'' ''0.0.0.0:23333'' ''abc'' 8989 collide_b) = Inr True
   \<and> active_servers collide_a = [(''t1_log_log'', LogFile 0), (''t1_log'', Proc 0)]
   \<and> active_servers collide_b =
        [(''t1_log_log'', LogFile 0), (''t1_log'', LogFile 1), (''t1'', Proc 1)]
   \<and> active_servers collide_c =
        [(''t1'', Proc 1), (''t1_log_log'', LogFile 2), (''t1_log'', Proc 2)]
   \<and> returncode collide_c 0 = None
   \<and> returncode collide_c 2 = None
   \<and> Spawned 0 ''/usr/local/bin/rathole'' ''/app/data/rathole/t1_log.toml'' \<in> set (events collide_c)
   \<and> Spawned 2 ''/usr/local/bin/rathole'' ''/app/data/rathole/t1_log.toml'' \<in> set (events collide_c)
   \<and> Sigterm 0 \<notin> set (events collide_c)
   \<and> Sigkill 0 \<notin> set (events collide_c)"
  using unlink_events_no_signal[of 0 "''t1_log''" collide_b]
  by (simp add: collide_a_fields collide_b_fields collide_c_fields)

text \<open>
  Claim C9, evaluated on the code. On a fresh manager \<open>is_running("t1_log")\<close> is
  \<open>False\<close>. After tunnel \<open>t1\<close> has been started there is still no tunnel \<open>t1_log\<close>
  (nothing is configured under that id), but \<open>is_running("t1_log")\<close> does not return
  \<open>False\<close>: the key holds the log file object of \<open>t1\<close> (line 98), \<open>poll()\<close> is called
  on it and \<open>AttributeError\<close> is raised.
\<close>

theorem is_running_raises_for_log_key:
  "is_running ''t1_log'' (init_state env_ok) = Inr False
   \<and> start_server ''t1'' ''0.0.0.0:23333'' ''abc'' 8989 (init_state env_ok)
       = (Inr True, started_t1 env_ok)
   \<and> map_of (server_configs (started_t1 env_ok)) ''t1_log'' = None
   \<and> map_of (active_servers (started_t1 env_ok)) ''t1_log'' = Some (LogFile 0)
   \<and> is_running ''t1_log'' (started_t1 env_ok) = Inl AttributeError"
proof -
  have a: "is_running ''t1_log'' (init_state env_ok) = Inr False"
    by (simp add: is_running_def init_state_def)
  have b: "start_server ''t1'' ''0.0.0.0:23333'' ''abc'' 8989 (init_state env_ok)
       = (Inr True, started_t1 env_ok)"
    by (rule ex_start_eq[OF ex_start_ok])
  have c: "map_of (server_configs (started_t1 env_ok)) ''t1_log'' = None"
    by (simp add: started_t1_def eval_defs ex_bind_addr env_ok_def)
  have d: "map_of (active_servers (started_t1 env_ok)) ''t1_log'' = Some (LogFile 0)"
    by (simp add: ex_started_active)
  have e: "is_running ''t1_log'' (started_t1 env_ok) = Inl AttributeError"
    by (simp add: is_running_def d)
  from a b c d e show ?thesis by simp
qed

end
